theory Spec2Isabelle
  imports Complex_Main
begin

section \<open>Data model\<close>

text \<open>
  The two notebooks (MYULA and SK-ROCK) sample an image posterior. A torch tensor of the
  fixed image shape is a value of a type \<open>'a\<close> that carries the operations the kernels use:
  addition, subtraction and multiplication by a real scalar (\<open>c *\<^sub>R x\<close>; division of a
  tensor by a scalar is \<open>x /\<^sub>R c\<close>). Arithmetic is exact real arithmetic. The shape of a
  tensor is its type, so every array of type \<open>'a\<close> has the shape of the chain state.

  The functions imported from \<open>sampling_tools\<close> and the data computed before the sampling
  cells (forward operator, observation, noise level) are fields of the records below.
\<close>

datatype error = ValueError | ZeroDivisionError | NameError

record ('a, 'g) model =
  A :: "'a \<Rightarrow> 'a"
  AT :: "'a \<Rightarrow> 'a"
  AAT_norm :: real
  sigma :: real
  y :: 'a
  matrix_norm_fro :: "'a \<Rightarrow> real"
  Grad_Image :: "'a \<Rightarrow> 'g"
  tv :: "'g \<Rightarrow> real"
  chambolle_prox_TV :: "'a \<Rightarrow> real \<Rightarrow> nat \<Rightarrow> 'a"

text \<open>
  The ambient random generator of torch and the number of calls made to the gradient
  oracle. \<open>randn n\<close> is the array that the \<open>n\<close>-th call of \<open>torch.randn_like\<close> returns,
  \<open>drawn\<close> counts the calls made so far, \<open>grad_evals\<close> counts the evaluations of the
  posterior gradient (a counter the notebooks do not keep; it only observes the calls).
\<close>

record 'a world =
  randn :: "nat \<Rightarrow> 'a"
  drawn :: nat
  grad_evals :: nat

definition randn_like :: "'a \<Rightarrow> 'a world \<Rightarrow> 'a \<times> 'a world" where
  "randn_like X w = (randn w (drawn w), w\<lparr>drawn := Suc (drawn w)\<rparr>)"

definition eval_grad :: "('a \<Rightarrow> 'a) \<Rightarrow> 'a \<Rightarrow> 'a world \<Rightarrow> 'a \<times> 'a world" where
  "eval_grad gradU X w = (gradU X, w\<lparr>grad_evals := Suc (grad_evals w)\<rparr>)"

definition math_sqrt :: "real \<Rightarrow> error + real" where
  \<comment> \<open>\<open>math.sqrt\<close> raises ValueError (math domain error) on a negative argument.\<close>
  "math_sqrt v = (if v < 0 then Inl ValueError else Inr (sqrt v))"

section \<open>Likelihood, prior and posterior oracles\<close>

definition f :: "('a::minus, 'g) model \<Rightarrow> 'a \<Rightarrow> real" where
  "f m x = (matrix_norm_fro m (y m - A m x))\<^sup>2 / (2 * (sigma m)\<^sup>2)"

definition gradf :: "('a::{minus,scaleR}, 'g) model \<Rightarrow> 'a \<Rightarrow> 'a" where
  "gradf m x = AT m (A m x - y m) /\<^sub>R (sigma m)\<^sup>2"

definition L_y :: "('a, 'g) model \<Rightarrow> real" where
  "L_y m = AAT_norm m / (sigma m)\<^sup>2"

definition theta :: real where
  "theta = 0.047 * 255"

definition g_fun_theta :: "('a, 'g) model \<Rightarrow> 'a \<Rightarrow> real" where
  "g_fun_theta m x = theta * tv m (Grad_Image m x)"

definition lambda_prox :: "('a, 'g) model \<Rightarrow> real" where
  "lambda_prox m = 1 / L_y m"

definition lambd_frac :: real where
  "lambd_frac = 0.99"

definition lambd :: "('a, 'g) model \<Rightarrow> real" where
  "lambd m = lambda_prox m * lambd_frac"

definition proxg :: "('a, 'g) model \<Rightarrow> 'a \<Rightarrow> 'a" where
  \<comment> \<open>\<open>chambolle_prox_TV(x, {'lambda': theta*lambd, 'MaxIter': 25})\<close>\<close>
  "proxg m x = chambolle_prox_TV m x (theta * lambd m) 25"

definition gradg :: "('a::{minus,scaleR}, 'g) model \<Rightarrow> 'a \<Rightarrow> 'a" where
  "gradg m x = (x - proxg m x) /\<^sub>R lambd m"

definition logPi :: "('a::minus, 'g) model \<Rightarrow> 'a \<Rightarrow> real" where
  "logPi m z = - f m z - g_fun_theta m z"

definition grad_f_g :: "('a::{plus,minus,scaleR}, 'g) model \<Rightarrow> 'a \<Rightarrow> 'a" where
  "grad_f_g m x = gradf m x + gradg m x"

section \<open>The MYULA kernel and its step size\<close>

definition ULA_kernel ::
  "('a::{plus,minus,scaleR}, 'g) model \<Rightarrow> 'a \<Rightarrow> real \<Rightarrow> 'a world \<Rightarrow> error + 'a \<times> 'a world" where
  \<comment> \<open>\<open>X - delta * grad_f_g(X) + math.sqrt(2*delta) * torch.randn_like(X)\<close>,
      operands evaluated from left to right\<close>
  "ULA_kernel m X delta w =
     (let (G, w1) = eval_grad (grad_f_g m) X w in
      case math_sqrt (2 * delta) of
        Inl e \<Rightarrow> Inl e
      | Inr c \<Rightarrow>
          (let (Z, w2) = randn_like X w1
           in Inr (X - delta *\<^sub>R G + c *\<^sub>R Z, w2)))"

definition L_g :: "('a, 'g) model \<Rightarrow> real" where
  "L_g m = 1 / lambd m"

definition L :: "('a, 'g) model \<Rightarrow> real" where
  "L m = L_y m + L_g m"

definition delta :: "('a, 'g) model \<Rightarrow> real" where
  "delta m = 1 / L m"

section \<open>The SK-ROCK kernel\<close>

definition T_s :: "real \<Rightarrow> real \<Rightarrow> real" where
  \<comment> \<open>first kind Chebyshev function\<close>
  "T_s s x = cosh (s * arcosh x)"

definition T_prime_s :: "real \<Rightarrow> real \<Rightarrow> real" where
  \<comment> \<open>first derivative of the Chebyshev polynomial of the first kind\<close>
  "T_prime_s s x = s * sinh (s * arcosh x) / sqrt (x\<^sup>2 - 1)"

definition SKROCK_stage ::
  "real \<Rightarrow> real \<Rightarrow> real \<Rightarrow> ('a \<Rightarrow> 'a) \<Rightarrow> nat \<Rightarrow>
   ('a::{plus,minus,scaleR} \<times> 'a) \<times> 'a world \<Rightarrow> ('a \<times> 'a) \<times> 'a world" where
  \<comment> \<open>the body of the loop over \<open>js\<close>; the state is \<open>((Xts, XtsMinus2), world)\<close>\<close>
  "SKROCK_stage w0 w1 dtSKROCK gradU js st =
     (case st of ((Xts, XtsMinus2), w) \<Rightarrow>
        let XprevSMinus2 = Xts;
            mu = 2 * w1 * T_s (real js - 1) w0 / T_s (real js) w0;
            nu = 2 * w0 * T_s (real js - 1) w0 / T_s (real js) w0;
            kappa = 1 - nu;
            (G, w') = eval_grad gradU Xts w;
            Xts' = (- mu * dtSKROCK) *\<^sub>R G + nu *\<^sub>R Xts + kappa *\<^sub>R XtsMinus2
        in ((Xts', XprevSMinus2), w'))"

definition SKROCK_kernel ::
  "'a::{plus,minus,scaleR} \<Rightarrow> real \<Rightarrow> nat \<Rightarrow> real \<Rightarrow> real \<Rightarrow> ('a \<Rightarrow> 'a) \<Rightarrow> 'a world
   \<Rightarrow> error + 'a \<times> 'a world" where
  "SKROCK_kernel X Lipschitz_U nStages eta dt_perc gradU w =
     (let denNStag = 2 - (4 / 3) * eta;
          rhoSKROCK = (real nStages - 0.5)\<^sup>2 * denNStag - 1.5;
          dtSKROCK = dt_perc * rhoSKROCK / Lipschitz_U
      in if nStages = 0 then Inl ZeroDivisionError
      else
        let w0 = 1 + eta / (real nStages)\<^sup>2;
            w1 = T_s (real nStages) w0 / T_prime_s (real nStages) w0;
            mu1 = w1 / w0;
            nu1 = real nStages * w1 / 2;
            kappa1 = real nStages * (w1 / w0)
        in case math_sqrt (2 * dtSKROCK) of
             Inl e \<Rightarrow> Inl e
           | Inr c \<Rightarrow>
               (let (Z, wa) = randn_like X w;
                    Q = c *\<^sub>R Z;
                    XtsMinus2 = X;
                    (G, wb) = eval_grad gradU (X + nu1 *\<^sub>R Q) wa;
                    Xts = X - (mu1 * dtSKROCK) *\<^sub>R G + kappa1 *\<^sub>R Q;
                    ((Xts', XtsMinus2'), wc) =
                       fold (SKROCK_stage w0 w1 dtSKROCK gradU) [2..<nStages + 1]
                         ((Xts, XtsMinus2), wb)
                in Inr (Xts', wc)))"

section \<open>The sampling loops\<close>

text \<open>
  The accumulator class \<open>welford\<close> (its constructor is \<open>welford_new\<close>), the Fourier
  transform and the quality metrics are imported by the notebooks; they are parameters
  here. \<open>x\<close> is the ground truth image.

  The sampling cells of the two notebooks have the same body up to the kernel, the
  number of iterations and the accumulator \<open>var_C\<close>, which only the SK-ROCK notebook
  keeps: \<open>with_var_C\<close> tells them apart.
\<close>

record ('a, 'w) tools =
  welford_new :: "'a \<Rightarrow> 'w"
  welford_update :: "'w \<Rightarrow> 'a \<Rightarrow> 'w"
  get_mean :: "'w \<Rightarrow> 'a"
  fft2_abs :: "'a \<Rightarrow> 'a"
  fft2_real :: "'a \<Rightarrow> 'a"
  x :: 'a
  NRMSE :: "'a \<Rightarrow> 'a \<Rightarrow> real"
  PSNR :: "'a \<Rightarrow> 'a \<Rightarrow> real"
  SSIM :: "'a \<Rightarrow> 'a \<Rightarrow> real"

text \<open>
  The variables of the sampling cell. A variable that is bound only inside the loop
  (\<open>post_meanvar\<close>, \<open>var_C\<close>, \<open>absfouriercoeff\<close>, \<open>count\<close>) is \<open>None\<close> until its first
  assignment; reading it earlier raises NameError.
\<close>

record ('a, 'w) chain =
  X :: 'a
  rng :: "'a world"
  post_meanvar :: "'w option"
  var_C :: "'w option"
  absfouriercoeff :: "'w option"
  count :: "int option"
  nrmse_values :: "real list"
  psnr_values :: "real list"
  ssim_values :: "real list"
  log_pi_trace :: "real list"
  MC_X :: "'a list"


definition initial_chain :: "'a \<Rightarrow> 'a world \<Rightarrow> ('a, 'w) chain" where
  "initial_chain X0 w =
     \<lparr>X = X0, rng = w, post_meanvar = None, var_C = None, absfouriercoeff = None,
      count = None, nrmse_values = [], psnr_values = [], ssim_values = [],
      log_pi_trace = [], MC_X = []\<rparr>"

definition collect ::
  "('a, 'w) tools \<Rightarrow> ('a \<Rightarrow> real) \<Rightarrow> bool \<Rightarrow> int \<Rightarrow> ('a, 'w) chain \<Rightarrow> error + ('a, 'w) chain" where
  \<comment> \<open>the branch \<open>elif i_x > burnin\<close>; \<open>with_var_C\<close> holds in the SK-ROCK notebook, whose
      thinning branch also updates \<open>var_C\<close>\<close>
  "collect tk log_pi with_var_C thin s =
     (case (post_meanvar s, absfouriercoeff s) of
        (Some pm, Some af) \<Rightarrow>
          (let pm' = welford_update tk pm (X s);
               af' = welford_update tk af (fft2_abs tk (X s));
               current_mean = get_mean tk pm';
               s1 = s\<lparr>post_meanvar := Some pm',
                      absfouriercoeff := Some af',
                      nrmse_values := nrmse_values s @ [NRMSE tk (x tk) current_mean],
                      psnr_values := psnr_values s @ [PSNR tk (x tk) current_mean],
                      ssim_values := ssim_values s @ [SSIM tk (x tk) current_mean],
                      log_pi_trace := log_pi_trace s @ [log_pi (X s)]\<rparr>
           in case count s1 of
                None \<Rightarrow> Inl NameError
              | Some c \<Rightarrow>
                  if c = thin - 1 then
                    (if with_var_C then
                       (case var_C s1 of
                          None \<Rightarrow> Inl NameError
                        | Some vc \<Rightarrow>
                            Inr (s1\<lparr>var_C := Some (welford_update tk vc (fft2_real tk (X s))),
                                    MC_X := MC_X s1 @ [X s], count := Some 0\<rparr>))
                     else Inr (s1\<lparr>MC_X := MC_X s1 @ [X s], count := Some 0\<rparr>))
                  else Inr (s1\<lparr>count := Some (c + 1)\<rparr>))
      | _ \<Rightarrow> Inl NameError)"

definition iteration ::
  "('a, 'w) tools \<Rightarrow> ('a \<Rightarrow> 'a world \<Rightarrow> error + 'a \<times> 'a world) \<Rightarrow> ('a \<Rightarrow> real) \<Rightarrow> bool \<Rightarrow>
   nat \<Rightarrow> int \<Rightarrow> nat \<Rightarrow> ('a, 'w) chain \<Rightarrow> error + ('a, 'w) chain" where
  \<comment> \<open>one pass through the body of \<open>for i_x in range(...)\<close>\<close>
  "iteration tk kern log_pi with_var_C burnin thin i_x s =
     (case kern (X s) (rng s) of
        Inl e \<Rightarrow> Inl e
      | Inr (X', w') \<Rightarrow>
          (let s1 = s\<lparr>X := X', rng := w'\<rparr>
           in if i_x = burnin then
                Inr (s1\<lparr>post_meanvar := Some (welford_new tk X'),
                        var_C := (if with_var_C then Some (welford_new tk (fft2_real tk X'))
                                  else var_C s1),
                        absfouriercoeff := Some (welford_new tk (fft2_abs tk X')),
                        count := Some 0\<rparr>)
              else if i_x > burnin then collect tk log_pi with_var_C thin s1
              else Inr s1))"

primrec sampling_loop ::
  "(nat \<Rightarrow> ('a, 'w) chain \<Rightarrow> error + ('a, 'w) chain) \<Rightarrow> nat \<Rightarrow> ('a, 'w) chain
   \<Rightarrow> error + ('a, 'w) chain" where
  \<comment> \<open>\<open>sampling_loop body n s\<close> runs the body for \<open>i_x = 0, \<dots>, n - 1\<close>; an exception
      ends the run\<close>
  "sampling_loop body 0 s = Inr s"
| "sampling_loop body (Suc n) s =
     (case sampling_loop body n s of Inl e \<Rightarrow> Inl e | Inr s' \<Rightarrow> body n s')"

definition MYULA_run ::
  "('a::{plus,minus,scaleR}, 'g) model \<Rightarrow> ('a, 'w) tools \<Rightarrow> real \<Rightarrow> nat \<Rightarrow> nat \<Rightarrow> int \<Rightarrow>
   'a world \<Rightarrow> error + ('a, 'w) chain" where
  \<comment> \<open>\<open>X = y.clone()\<close>, then \<open>for i_x in range(maxit)\<close>\<close>
  "MYULA_run m tk dt maxit burnin thin w =
     sampling_loop (iteration tk (\<lambda>X. ULA_kernel m X dt) (logPi m) False burnin thin)
       maxit (initial_chain (y m) w)"

definition SKROCK_run ::
  "('a::{plus,minus,scaleR}, 'g) model \<Rightarrow> ('a, 'w) tools \<Rightarrow> nat \<Rightarrow> real \<Rightarrow> real \<Rightarrow>
   nat \<Rightarrow> nat \<Rightarrow> int \<Rightarrow> 'a world \<Rightarrow> error + ('a, 'w) chain" where
  \<comment> \<open>\<open>X = y.clone()\<close>, then \<open>for i_x in range(maxit+burnin)\<close>\<close>
  "SKROCK_run m tk s eta dt_perc maxit burnin thin w =
     sampling_loop
       (iteration tk (\<lambda>X. SKROCK_kernel X (L m) s eta dt_perc (grad_f_g m)) (logPi m)
          True burnin thin)
       (maxit + burnin) (initial_chain (y m) w)"

definition state_after ::
  "(nat \<Rightarrow> ('a, 'w) chain \<Rightarrow> error + ('a, 'w) chain) \<Rightarrow> ('a, 'w) chain \<Rightarrow> nat \<Rightarrow> 'a" where
  \<comment> \<open>the chain state \<open>X\<close> once \<open>n\<close> iterations have run (the initial state if an
      exception ended the run before)\<close>
  "state_after body s n = (case sampling_loop body n s of Inl e \<Rightarrow> X s | Inr r \<Rightarrow> X r)"

section \<open>The SK-ROCK recursion as the specification states it\<close>

text \<open>
  The quantities of the specified algorithm: the stiffness ratio \<open>\<ell>\<^sub>s\<close>, the coefficients
  \<open>\<omega>\<^sub>0\<close>, \<open>\<omega>\<^sub>1\<close>, \<open>\<mu>\<^sub>j\<close>, \<open>\<nu>\<^sub>j\<close>, \<open>\<kappa>\<^sub>j\<close> with \<open>T\<^sub>j(v) = cosh(j arccosh v)\<close>, the first
  stage \<open>K\<^sub>1\<close> and the stages \<open>K\<^sub>j\<close>. The kernel of the notebook is compared with them.
\<close>

definition ell_s :: "nat \<Rightarrow> real \<Rightarrow> real" where
  "ell_s s eta = (real s - 0.5)\<^sup>2 * (2 - 4 * eta / 3) - 1.5"

definition omega_0 :: "nat \<Rightarrow> real \<Rightarrow> real" where
  "omega_0 s eta = 1 + eta / (real s)\<^sup>2"

definition Cheb :: "nat \<Rightarrow> real \<Rightarrow> real" where
  "Cheb j v = cosh (real j * arcosh v)"

definition Cheb_prime :: "nat \<Rightarrow> real \<Rightarrow> real" where
  "Cheb_prime j v = real j * sinh (real j * arcosh v) / sqrt (v\<^sup>2 - 1)"

definition omega_1 :: "nat \<Rightarrow> real \<Rightarrow> real" where
  "omega_1 s eta = Cheb s (omega_0 s eta) / Cheb_prime s (omega_0 s eta)"

definition mu_j :: "nat \<Rightarrow> real \<Rightarrow> nat \<Rightarrow> real" where
  "mu_j s eta j = 2 * omega_1 s eta * Cheb (j - 1) (omega_0 s eta) / Cheb j (omega_0 s eta)"

definition nu_j :: "nat \<Rightarrow> real \<Rightarrow> nat \<Rightarrow> real" where
  "nu_j s eta j = 2 * omega_0 s eta * Cheb (j - 1) (omega_0 s eta) / Cheb j (omega_0 s eta)"

definition kappa_j :: "nat \<Rightarrow> real \<Rightarrow> nat \<Rightarrow> real" where
  "kappa_j s eta j = 1 - nu_j s eta j"

definition K_1 :: "('a \<Rightarrow> 'a) \<Rightarrow> nat \<Rightarrow> real \<Rightarrow> real \<Rightarrow> 'a::{plus,minus,scaleR} \<Rightarrow> 'a \<Rightarrow> 'a" where
  "K_1 gradU s eta dl Xt Q =
     Xt - ((omega_1 s eta / omega_0 s eta) * dl) *\<^sub>R gradU (Xt + (real s * omega_1 s eta / 2) *\<^sub>R Q)
       + (real s * omega_1 s eta / omega_0 s eta) *\<^sub>R Q"

fun K_stage :: "('a \<Rightarrow> 'a) \<Rightarrow> nat \<Rightarrow> real \<Rightarrow> real \<Rightarrow> 'a::{plus,minus,scaleR} \<Rightarrow> 'a \<Rightarrow> nat \<Rightarrow> 'a" where
  "K_stage gradU s eta dl Xt Q 0 = Xt"
| "K_stage gradU s eta dl Xt Q (Suc 0) = K_1 gradU s eta dl Xt Q"
| "K_stage gradU s eta dl Xt Q (Suc (Suc j)) =
     (- mu_j s eta (Suc (Suc j)) * dl) *\<^sub>R gradU (K_stage gradU s eta dl Xt Q (Suc j))
     + nu_j s eta (Suc (Suc j)) *\<^sub>R K_stage gradU s eta dl Xt Q (Suc j)
     + kappa_j s eta (Suc (Suc j)) *\<^sub>R K_stage gradU s eta dl Xt Q j"


section \<open>The MYULA update as the specification states it\<close>

text \<open>
  The specification composes the posterior gradient as \<open>- \<nabla>f - \<theta> \<nabla>g\<^sub>\<lambda>\<close>, where \<open>\<nabla>g\<^sub>\<lambda>\<close> is
  what the smoothed-prior oracle \<open>gradg\<close> returns.
\<close>

definition claimed_grad_log_p :: "('a::real_vector, 'g) model \<Rightarrow> 'a \<Rightarrow> 'a" where
  "claimed_grad_log_p m Xt = - gradf m Xt - theta *\<^sub>R gradg m Xt"

definition claimed_MYULA_update :: "('a::real_vector, 'g) model \<Rightarrow> 'a \<Rightarrow> real \<Rightarrow> 'a \<Rightarrow> 'a" where
  "claimed_MYULA_update m Xt dl Z = Xt + dl *\<^sub>R claimed_grad_log_p m Xt + sqrt (2 * dl) *\<^sub>R Z"

section \<open>A two-pixel instance\<close>

text \<open>
  A concrete problem on which the definitions are evaluated: an image of two pixels is a
  complex number (first pixel, second pixel), the forward operator is the identity, the
  noise level is one, and the proximal operator of the total variation \<open>l \<bar>b - a\<bar>\<close> is
  the exact one. The generator returns the zero array at every call.
\<close>

definition tv_prox_two_pixel :: "complex \<Rightarrow> real \<Rightarrow> nat \<Rightarrow> complex" where
  "tv_prox_two_pixel v l n =
     (if \<bar>Re v - Im v\<bar> \<le> 2 * l then Complex ((Re v + Im v) / 2) ((Re v + Im v) / 2)
      else if Im v < Re v then Complex (Re v - l) (Im v + l)
      else Complex (Re v + l) (Im v - l))"

definition two_pixel :: "(complex, real) model" where
  "two_pixel =
     \<lparr>A = (\<lambda>v. v), AT = (\<lambda>v. v), AAT_norm = 1, sigma = 1, y = Complex 1 0,
      matrix_norm_fro = cmod, Grad_Image = (\<lambda>v. Im v - Re v), tv = abs,
      chambolle_prox_TV = tv_prox_two_pixel\<rparr>"

definition quiet_world :: "complex world" where
  "quiet_world = \<lparr>randn = (\<lambda>n. 0), drawn = 0, grad_evals = 0\<rparr>"


section \<open>Arrays with non-finite entries\<close>

text \<open>
  A one-pixel image whose value may be non-finite, with the arithmetic of IEEE
  infinities and NaN on top of exact real arithmetic. Real-valued diagnostics of a
  non-finite array have no counterpart among the reals; \<open>magnitude\<close> gives them the
  value zero, and no statement below depends on it.
\<close>

datatype xfloat = Fin real | PInf | MInf | NaN

fun xneg :: "xfloat \<Rightarrow> xfloat" where
  "xneg (Fin a) = Fin (- a)"
| "xneg PInf = MInf"
| "xneg MInf = PInf"
| "xneg NaN = NaN"

fun magnitude :: "xfloat \<Rightarrow> real" where
  "magnitude (Fin a) = \<bar>a\<bar>"
| "magnitude v = 0"

instantiation xfloat :: "{plus, minus, scaleR}"
begin

fun plus_xfloat :: "xfloat \<Rightarrow> xfloat \<Rightarrow> xfloat" where
  "plus_xfloat (Fin a) (Fin b) = Fin (a + b)"
| "plus_xfloat NaN v = NaN"
| "plus_xfloat v NaN = NaN"
| "plus_xfloat PInf MInf = NaN"
| "plus_xfloat MInf PInf = NaN"
| "plus_xfloat PInf v = PInf"
| "plus_xfloat v PInf = PInf"
| "plus_xfloat MInf v = MInf"
| "plus_xfloat v MInf = MInf"

definition minus_xfloat :: "xfloat \<Rightarrow> xfloat \<Rightarrow> xfloat" where
  "minus_xfloat u v = u + xneg v"

fun scaleR_xfloat :: "real \<Rightarrow> xfloat \<Rightarrow> xfloat" where
  "scaleR_xfloat c (Fin a) = Fin (c * a)"
| "scaleR_xfloat c NaN = NaN"
| "scaleR_xfloat c PInf = (if 0 < c then PInf else if c < 0 then MInf else NaN)"
| "scaleR_xfloat c MInf = (if 0 < c then MInf else if c < 0 then PInf else NaN)"

instance ..

end

text \<open>
  A problem whose observation is NaN, with identity operators; accumulators that keep
  the list of the arrays they were given.
\<close>

definition nan_pixel :: "(xfloat, xfloat) model" where
  "nan_pixel =
     \<lparr>A = (\<lambda>v. v), AT = (\<lambda>v. v), AAT_norm = 1, sigma = 1, y = NaN,
      matrix_norm_fro = magnitude, Grad_Image = (\<lambda>v. Fin 0), tv = magnitude,
      chambolle_prox_TV = (\<lambda>v l n. v)\<rparr>"

definition history_tools :: "(xfloat, xfloat list) tools" where
  "history_tools =
     \<lparr>welford_new = (\<lambda>v. [v]), welford_update = (\<lambda>h v. h @ [v]),
      get_mean = (\<lambda>h. (1 / real (length h)) *\<^sub>R foldr (+) h (Fin 0)),
      fft2_abs = (\<lambda>v. Fin (magnitude v)), fft2_real = (\<lambda>v. v), x = Fin 1,
      NRMSE = (\<lambda>a b. magnitude (a - b)), PSNR = (\<lambda>a b. - magnitude (a - b)),
      SSIM = (\<lambda>a b. 1 - magnitude (a - b))\<rparr>"

definition still_world :: "xfloat world" where
  "still_world = \<lparr>randn = (\<lambda>n. Fin 0), drawn = 0, grad_evals = 0\<rparr>"


section \<open>Observing a run\<close>

text \<open>
  \<open>MYULA_state \<dots> n\<close> and \<open>SKROCK_state \<dots> n\<close> are the chain state once \<open>n\<close> iterations
  of the sampling cell have run, so that \<open>\<dots> (Suc i)\<close> is the state produced by the
  iteration \<open>i_x = i\<close>; \<open>retained\<close> is the length of the thinned trace of a run.
\<close>

definition MYULA_state ::
  "('a::{plus,minus,scaleR}, 'g) model \<Rightarrow> ('a, 'w) tools \<Rightarrow> real \<Rightarrow> nat \<Rightarrow> int \<Rightarrow>
   'a world \<Rightarrow> nat \<Rightarrow> 'a" where
  "MYULA_state m tk dl burnin thin w n =
     state_after (iteration tk (\<lambda>Xv. ULA_kernel m Xv dl) (logPi m) False burnin thin)
       (initial_chain (y m) w) n"

definition SKROCK_state ::
  "('a::{plus,minus,scaleR}, 'g) model \<Rightarrow> ('a, 'w) tools \<Rightarrow> nat \<Rightarrow> real \<Rightarrow> real \<Rightarrow>
   nat \<Rightarrow> int \<Rightarrow> 'a world \<Rightarrow> nat \<Rightarrow> 'a" where
  "SKROCK_state m tk s eta dt_perc burnin thin w n =
     state_after
       (iteration tk (\<lambda>Xv. SKROCK_kernel Xv (L m) s eta dt_perc (grad_f_g m)) (logPi m)
          True burnin thin)
       (initial_chain (y m) w) n"


definition trace_tools :: "(complex, complex list) tools" where
  "trace_tools =
     \<lparr>welford_new = (\<lambda>v. [v]), welford_update = (\<lambda>h v. h @ [v]),
      get_mean = (\<lambda>h. sum_list h /\<^sub>R real (length h)),
      fft2_abs = (\<lambda>v. Complex \<bar>Re v + Im v\<bar> \<bar>Re v - Im v\<bar>),
      fft2_real = (\<lambda>v. Complex (Re v + Im v) (Re v - Im v)), x = Complex 1 0,
      NRMSE = (\<lambda>a b. cmod (a - b) / cmod a), PSNR = (\<lambda>a b. - (cmod (a - b))\<^sup>2),
      SSIM = (\<lambda>a b. 1 - cmod (a - b))\<rparr>"


section \<open>Facts about the two-pixel instance and the MYULA kernel\<close>

lemma two_pixel_consts:
  "L_y two_pixel = 1" "lambd two_pixel = 99 / 100" "delta two_pixel = 99 / 199"
  "theta * lambd two_pixel = 2373030 / 200000" "L two_pixel = 199 / 99"
  by (simp_all add: L_y_def lambd_def lambda_prox_def lambd_frac_def delta_def L_def L_g_def
        two_pixel_def theta_def)

lemma two_pixel_grads:
  "gradf two_pixel (Complex 1 0) = 0"
  "gradg two_pixel (Complex 1 0) = Complex (50 / 99) (- (50 / 99))"
  by (simp_all add: gradf_def gradg_def proxg_def two_pixel_consts complex_eq_iff)
     (simp_all add: two_pixel_def tv_prox_two_pixel_def theta_def)

lemma ULA_kernel_returns:
  assumes "0 \<le> dl"
  shows "ULA_kernel m Xt dl w =
           Inr (Xt - dl *\<^sub>R grad_f_g m Xt + sqrt (2 * dl) *\<^sub>R randn w (drawn w),
                w\<lparr>drawn := Suc (drawn w), grad_evals := Suc (grad_evals w)\<rparr>)"
  using assms by (simp add: ULA_kernel_def eval_grad_def randn_like_def math_sqrt_def)


section \<open>The SK-ROCK kernel: stage recursion\<close>

lemma T_s_Cheb: "T_s (real j) v = Cheb j v"
  by (simp add: T_s_def Cheb_def)

lemma T_s_Cheb_pred: "T_s (real (Suc j) - 1) v = Cheb j v"
  by (simp add: T_s_def Cheb_def)

lemma SKROCK_stage_K:
  "SKROCK_stage (omega_0 s eta) (omega_1 s eta) dl gradU (Suc (Suc j))
     ((K_stage gradU s eta dl Xt Q (Suc j), K_stage gradU s eta dl Xt Q j), w)
   = ((K_stage gradU s eta dl Xt Q (Suc (Suc j)), K_stage gradU s eta dl Xt Q (Suc j)),
      w\<lparr>grad_evals := Suc (grad_evals w)\<rparr>)"
  by (subst K_stage.simps(3))
     (simp add: SKROCK_stage_def Let_def eval_grad_def T_s_Cheb T_s_Cheb_pred
        mu_j_def nu_j_def kappa_j_def del: of_nat_Suc K_stage.simps)

lemma SKROCK_stages_K:
  "fold (SKROCK_stage (omega_0 s eta) (omega_1 s eta) dl gradU) [2..<Suc (Suc n)]
     ((K_stage gradU s eta dl Xt Q (Suc 0), K_stage gradU s eta dl Xt Q 0), w)
   = ((K_stage gradU s eta dl Xt Q (Suc n), K_stage gradU s eta dl Xt Q n),
      w\<lparr>grad_evals := grad_evals w + n\<rparr>)"
proof (induction n)
  case 0
  show ?case by simp
next
  case (Suc n)
  have "[2..<Suc (Suc (Suc n))] = [2..<Suc (Suc n)] @ [Suc (Suc n)]"
    by simp
  then show ?case
    using Suc.IH by (simp add: SKROCK_stage_K del: K_stage.simps upt_Suc)
qed

lemma ell_s_pos:
  assumes "2 \<le> s" "eta < 1"
  shows "0 < ell_s s eta"
proof -
  have "(3 / 2 :: real) \<le> real s - 1 / 2" using assms(1) by simp
  then have "(3 / 2 :: real)\<^sup>2 \<le> (real s - 1 / 2)\<^sup>2"
    by (intro power_mono) simp_all
  then have a: "(9 / 4 :: real) \<le> (real s - 1 / 2)\<^sup>2"
    by (simp add: power2_eq_square)
  have b: "(2 / 3 :: real) < 2 - 4 * eta / 3" using assms(2) by simp
  have "(9 / 4 :: real) * (2 / 3) < (real s - 1 / 2)\<^sup>2 * (2 - 4 * eta / 3)"
    using a b by (intro mult_le_less_imp_less) simp_all
  then show ?thesis by (simp add: ell_s_def)
qed

lemma ell_1_neg:
  assumes "0 < eta"
  shows "ell_s 1 eta < 0"
  using assms by (simp add: ell_s_def power2_eq_square)


lemma SKROCK_kernel_returns:
  assumes "0 < s" and "0 \<le> dt_perc * ell_s s eta / Lp"
  shows "SKROCK_kernel Xt Lp s eta dt_perc gradU w =
           Inr (K_stage gradU s eta (dt_perc * ell_s s eta / Lp) Xt
                  (sqrt (2 * (dt_perc * ell_s s eta / Lp)) *\<^sub>R randn w (drawn w)) s,
                w\<lparr>drawn := Suc (drawn w), grad_evals := grad_evals w + s\<rparr>)"
proof -
  obtain n where n: "s = Suc n" using assms(1) by (cases s) auto
  define dl where "dl = dt_perc * ell_s s eta / Lp"
  define Q where "Q = sqrt (2 * dl) *\<^sub>R randn w (drawn w)"
  have rho: "(real s - 0.5)\<^sup>2 * (2 - (4 / 3) * eta) - 1.5 = ell_s s eta"
    by (simp add: ell_s_def)
  have w0: "1 + eta / (real s)\<^sup>2 = omega_0 s eta"
    by (simp add: omega_0_def)
  have w1: "T_s (real s) (omega_0 s eta) / T_prime_s (real s) (omega_0 s eta) = omega_1 s eta"
    by (simp add: omega_1_def T_s_def T_prime_s_def Cheb_def Cheb_prime_def)
  have sq: "math_sqrt (2 * dl) = Inr (sqrt (2 * dl))"
    using assms(2) by (simp add: math_sqrt_def dl_def)
  have first: "Xt - (omega_1 s eta / omega_0 s eta * dl) *\<^sub>R
                 gradU (Xt + (real s * omega_1 s eta / 2) *\<^sub>R Q)
               + (real s * (omega_1 s eta / omega_0 s eta)) *\<^sub>R Q
             = K_stage gradU s eta dl Xt Q (Suc 0)"
    by (simp add: K_1_def)
  have loop: "fold (SKROCK_stage (omega_0 s eta) (omega_1 s eta) dl gradU) [2..<s + 1]
                ((K_stage gradU s eta dl Xt Q (Suc 0), Xt), w')
              = ((K_stage gradU s eta dl Xt Q s, K_stage gradU s eta dl Xt Q n),
                 w'\<lparr>grad_evals := grad_evals w' + n\<rparr>)" for w'
    using SKROCK_stages_K [of s eta dl gradU n Xt Q w'] by (simp add: n)
  have s0: "s \<noteq> 0" using assms(1) by simp
  have "SKROCK_kernel Xt Lp s eta dt_perc gradU w =
          Inr (K_stage gradU s eta dl Xt Q s,
               w\<lparr>drawn := Suc (drawn w), grad_evals := Suc (grad_evals w)\<rparr>
                 \<lparr>grad_evals := grad_evals
                     (w\<lparr>drawn := Suc (drawn w), grad_evals := Suc (grad_evals w)\<rparr>) + n\<rparr>)"
    unfolding SKROCK_kernel_def Let_def rho w0 w1 dl_def [symmetric]
    by (simp only: s0 if_False sq sum.case randn_like_def eval_grad_def prod.case
          Q_def [symmetric] first loop) simp
  then show ?thesis
    by (simp add: n dl_def Q_def del: K_stage.simps)
qed

lemma SKROCK_kernel_raises:
  assumes "0 < s" and "dt_perc * ell_s s eta / Lp < 0"
  shows "SKROCK_kernel Xt Lp s eta dt_perc gradU w = Inl ValueError"
proof -
  have rho: "(real s - 0.5)\<^sup>2 * (2 - (4 / 3) * eta) - 1.5 = ell_s s eta"
    by (simp add: ell_s_def)
  show ?thesis
    unfolding SKROCK_kernel_def Let_def rho
    using assms by (simp add: math_sqrt_def)
qed

lemma step_nonneg:
  assumes "2 \<le> s" "eta < 1" "0 < alpha" "0 < Lp"
  shows "0 \<le> alpha * ell_s s eta / Lp"
  using ell_s_pos [OF assms(1,2)] assms(3,4) by simp

lemma step_neg:
  assumes "0 < eta" "0 < alpha" "0 < Lp"
  shows "alpha * ell_s 1 eta / Lp < 0"
  using ell_1_neg [OF assms(1)] assms(2,3)
  by (simp add: divide_neg_pos mult_pos_neg)

text \<open>
  Claim C1, amended. For a stage count \<open>s \<ge> 2\<close>, damping \<open>0 < \<eta> < 1\<close>, step fraction
  \<open>0 < \<alpha> < 1\<close> and a positive Lipschitz constant, the SK-ROCK kernel returns the stage
  \<open>K\<^sub>s\<close> of the specified recursion, run with the step size \<open>\<delta> = \<alpha> \<ell>\<^sub>s / L\<close>, the
  coefficients \<open>\<omega>\<^sub>0\<close>, \<open>\<omega>\<^sub>1\<close>, \<open>\<mu>\<^sub>j\<close>, \<open>\<nu>\<^sub>j\<close>, \<open>\<kappa>\<^sub>j\<close> and \<open>K\<^sub>0 = X\<close>.
\<close>

theorem SKROCK_kernel_stage_recursion:
  assumes "2 \<le> s" and "0 < eta" and "eta < 1" and "0 < alpha" and "alpha < 1" and "0 < Lp"
  shows "\<exists>w'. SKROCK_kernel Xt Lp s eta alpha gradU w =
           Inr (K_stage gradU s eta (alpha * ell_s s eta / Lp) Xt
                  (sqrt (2 * (alpha * ell_s s eta / Lp)) *\<^sub>R randn w (drawn w)) s, w')"
proof -
  have "0 < s" using assms(1) by simp
  moreover have "0 \<le> alpha * ell_s s eta / Lp"
    using assms by (intro step_nonneg)
  ultimately show ?thesis
    using SKROCK_kernel_returns [of s alpha eta Lp Xt gradU w] by blast
qed

theorem SKROCK_kernel_stage_recursion_witness:
  "(2::nat) \<le> 10 \<and> (0::real) < 1 / 20 \<and> (1 / 20 :: real) < 1 \<and> (0::real) < 99 / 100
   \<and> (99 / 100 :: real) < 1 \<and> 0 < L two_pixel
   \<and> (\<exists>w'. SKROCK_kernel (Complex 1 0) (L two_pixel) 10 (1 / 20) (99 / 100)
              (grad_f_g two_pixel) quiet_world =
           Inr (K_stage (grad_f_g two_pixel) 10 (1 / 20)
                  (99 / 100 * ell_s 10 (1 / 20) / L two_pixel) (Complex 1 0)
                  (sqrt (2 * (99 / 100 * ell_s 10 (1 / 20) / L two_pixel)) *\<^sub>R
                     randn quiet_world (drawn quiet_world)) 10, w'))"
proof -
  have h: "(2::nat) \<le> 10" "(0::real) < 1 / 20" "(1 / 20 :: real) < 1" "(0::real) < 99 / 100"
    "(99 / 100 :: real) < 1" "0 < L two_pixel"
    by (simp_all add: two_pixel_consts)
  from SKROCK_kernel_stage_recursion [OF h] h show ?thesis by blast
qed

text \<open>
  With one stage the stiffness ratio is negative, so is the step size, and
  \<open>math.sqrt\<close> raises: the claim as stated (every \<open>s \<ge> 1\<close>) fails at \<open>s = 1\<close>.
\<close>

theorem SKROCK_kernel_stage_recursion_counterexample:
  "SKROCK_kernel (Complex 1 0) (L two_pixel) 1 (1 / 20) (99 / 100) (grad_f_g two_pixel)
     quiet_world = Inl ValueError"
  by (rule SKROCK_kernel_raises) (simp_all add: two_pixel_consts ell_s_def power2_eq_square)

lemma Cheb_1: "1 \<le> v \<Longrightarrow> Cheb (Suc 0) v = v"
  by (simp add: Cheb_def cosh_arcosh_real)

lemma Cheb_prime_1: "1 < v \<Longrightarrow> Cheb_prime (Suc 0) v = 1"
proof -
  assume v: "1 < v"
  then have "1 < v\<^sup>2" by (intro one_less_power) simp_all
  then have "sqrt (v\<^sup>2 - 1) \<noteq> 0" by simp
  then show ?thesis using v by (simp add: Cheb_prime_def sinh_arcosh_real)
qed

lemma omega_1_single:
  assumes "0 < eta"
  shows "omega_1 (Suc 0) eta = 1 + eta" and "omega_0 (Suc 0) eta = 1 + eta"
proof -
  show w0: "omega_0 (Suc 0) eta = 1 + eta" by (simp add: omega_0_def)
  show "omega_1 (Suc 0) eta = 1 + eta"
    using assms by (simp add: omega_1_def w0 Cheb_1 Cheb_prime_1)
qed

text \<open>
  Claim C4, amended. With one stage (and \<open>0 < \<eta> < 1\<close>, \<open>0 < \<alpha> < 1\<close>, \<open>L > 0\<close>) the step
  size \<open>\<alpha> \<ell>\<^sub>1 / L\<close> is negative and the kernel raises ValueError at \<open>math.sqrt\<close>: it
  returns no state. The first stage it would compute has \<open>\<omega>\<^sub>1 = \<omega>\<^sub>0\<close>, hence
  \<open>\<mu>\<^sub>1 = \<kappa>\<^sub>1 = 1\<close> and \<open>\<nu>\<^sub>1 = (1 + \<eta>) / 2\<close>: the gradient is taken at \<open>X + \<nu>\<^sub>1 Q\<close>,
  not at \<open>X\<close>.
\<close>

theorem SKROCK_single_stage:
  fixes Xt :: "'a::real_vector"
  assumes "0 < eta" and "eta < 1" and "0 < alpha" and "alpha < 1" and "0 < Lp"
  shows "alpha * ell_s 1 eta / Lp < 0
       \<and> SKROCK_kernel Xt Lp 1 eta alpha gradU w = Inl ValueError
       \<and> K_stage gradU 1 eta dl Xt Q 1 = Xt - dl *\<^sub>R gradU (Xt + ((1 + eta) / 2) *\<^sub>R Q) + Q"
proof -
  have neg: "alpha * ell_s 1 eta / Lp < 0"
    using assms by (intro step_neg)
  have "SKROCK_kernel Xt Lp 1 eta alpha gradU w = Inl ValueError"
    using neg by (intro SKROCK_kernel_raises) simp_all
  moreover have "K_stage gradU 1 eta dl Xt Q 1
                 = Xt - dl *\<^sub>R gradU (Xt + ((1 + eta) / 2) *\<^sub>R Q) + Q"
  proof -
    have "1 + eta \<noteq> 0" using assms(1) by simp
    then show ?thesis
      using assms(1) by (simp add: K_1_def omega_1_single)
  qed
  ultimately show ?thesis using neg by simp
qed

theorem SKROCK_single_stage_witness:
  "(0::real) < 1 / 20 \<and> (1 / 20 :: real) < 1 \<and> (0::real) < 99 / 100 \<and> (99 / 100 :: real) < 1
   \<and> 0 < L two_pixel
   \<and> 99 / 100 * ell_s 1 (1 / 20) / L two_pixel < 0
   \<and> SKROCK_kernel (Complex 1 0) (L two_pixel) 1 (1 / 20) (99 / 100) (grad_f_g two_pixel)
        quiet_world = Inl ValueError
   \<and> K_stage (grad_f_g two_pixel) 1 (1 / 20) 1 (Complex 1 0) 0 1
       = Complex 1 0 - 1 *\<^sub>R grad_f_g two_pixel (Complex 1 0 + ((1 + 1 / 20) / 2) *\<^sub>R 0) + 0"
proof -
  have h: "(0::real) < 1 / 20" "(1 / 20 :: real) < 1" "(0::real) < 99 / 100"
    "(99 / 100 :: real) < 1" "0 < L two_pixel"
    by (simp_all add: two_pixel_consts)
  from SKROCK_single_stage [OF h, of "Complex 1 0" "grad_f_g two_pixel" quiet_world 1 0] h
  show ?thesis by blast
qed

text \<open>
  On the two-pixel instance the kernel with one stage raises, while the MYULA kernel
  with its own step size \<open>1 / L\<close> returns a state.
\<close>

theorem SKROCK_single_stage_counterexample:
  "SKROCK_kernel (Complex 1 0) (L two_pixel) 1 (1 / 2) (1 / 2) (grad_f_g two_pixel)
     quiet_world = Inl ValueError
   \<and> ULA_kernel two_pixel (Complex 1 0) (delta two_pixel) quiet_world
     = Inr (Complex (149 / 199) (50 / 199), quiet_world\<lparr>drawn := 1, grad_evals := 1\<rparr>)"
proof -
  have "SKROCK_kernel (Complex 1 0) (L two_pixel) 1 (1 / 2) (1 / 2) (grad_f_g two_pixel)
     quiet_world = Inl ValueError"
    by (rule SKROCK_kernel_raises) (simp_all add: two_pixel_consts ell_s_def power2_eq_square)
  moreover have "ULA_kernel two_pixel (Complex 1 0) (delta two_pixel) quiet_world
     = Inr (Complex (149 / 199) (50 / 199), quiet_world\<lparr>drawn := 1, grad_evals := 1\<rparr>)"
    by (simp add: ULA_kernel_returns two_pixel_consts grad_f_g_def two_pixel_grads
          quiet_world_def complex_eq_iff)
  ultimately show ?thesis by simp
qed

section \<open>The MYULA kernel and the oracles\<close>

text \<open>
  On the two-pixel instance, from the state \<open>(1, 0)\<close> with the step size \<open>1 / L\<close> and a
  zero noise draw, the kernel returns \<open>(149/199, 50/199)\<close>; the update of the claim, with
  the factor \<open>\<theta>\<close> in front of the oracle's smoothed-prior gradient, gives another array.
\<close>

theorem ULA_kernel_update_counterexample:
  "ULA_kernel two_pixel (Complex 1 0) (delta two_pixel) quiet_world
     = Inr (Complex (149 / 199) (50 / 199), quiet_world\<lparr>drawn := 1, grad_evals := 1\<rparr>)
   \<and> claimed_MYULA_update two_pixel (Complex 1 0) (delta two_pixel) 0
     \<noteq> Complex (149 / 199) (50 / 199)"
proof -
  have "ULA_kernel two_pixel (Complex 1 0) (delta two_pixel) quiet_world
     = Inr (Complex (149 / 199) (50 / 199), quiet_world\<lparr>drawn := 1, grad_evals := 1\<rparr>)"
    by (simp add: ULA_kernel_returns two_pixel_consts grad_f_g_def two_pixel_grads
          quiet_world_def complex_eq_iff)
  moreover have "claimed_MYULA_update two_pixel (Complex 1 0) (delta two_pixel) 0
     \<noteq> Complex (149 / 199) (50 / 199)"
    by (simp add: claimed_MYULA_update_def claimed_grad_log_p_def two_pixel_consts
          two_pixel_grads complex_eq_iff theta_def)
  ultimately show ?thesis by simp
qed

text \<open>
  Claim C2, amended. For a step size \<open>\<delta> \<ge> 0\<close> the MYULA kernel returns
  \<open>X + \<delta> (- \<nabla>f(X) - gradg(X)) + sqrt(2 \<delta>) Z\<close>, where \<open>gradg(X) = (X - prox(X)) / \<lambda>\<close> enters
  without a further factor \<open>\<theta>\<close> and \<open>Z\<close> is the next array of the generator; the
  transition makes one draw and one evaluation of the posterior gradient. The driver's
  step size is \<open>1 / L\<close> with \<open>L = L\<^sub>y + 1 / \<lambda>\<close>.
\<close>

theorem ULA_kernel_update:
  fixes Xt :: "'a::real_vector"
  assumes "0 \<le> dl"
  shows "ULA_kernel m Xt dl w =
           Inr (Xt + dl *\<^sub>R (- gradf m Xt - gradg m Xt) + sqrt (2 * dl) *\<^sub>R randn w (drawn w),
                w\<lparr>drawn := Suc (drawn w), grad_evals := Suc (grad_evals w)\<rparr>)
       \<and> delta m = 1 / (L_y m + 1 / lambd m)"
  using assms
  by (simp add: ULA_kernel_returns grad_f_g_def delta_def L_def L_g_def algebra_simps)

theorem ULA_kernel_update_witness:
  "(0::real) \<le> 1 / 2
   \<and> ULA_kernel two_pixel (Complex 1 0) (1 / 2) quiet_world =
           Inr (Complex 1 0 + (1 / 2) *\<^sub>R (- gradf two_pixel (Complex 1 0) - gradg two_pixel (Complex 1 0))
                  + sqrt (2 * (1 / 2)) *\<^sub>R randn quiet_world (drawn quiet_world),
                quiet_world\<lparr>drawn := Suc (drawn quiet_world), grad_evals := Suc (grad_evals quiet_world)\<rparr>)
       \<and> delta two_pixel = 1 / (L_y two_pixel + 1 / lambd two_pixel)"
  using ULA_kernel_update [of "1 / 2" two_pixel "Complex 1 0" quiet_world] by simp

text \<open>
  Claim C7. The smoothed-prior oracle returns \<open>(X - prox(X)) / \<lambda>\<close>, the proximal operator
  being the external solver called with the smoothing parameter \<open>\<theta> \<lambda>\<close> and 25 iterations,
  and \<open>\<lambda> = \<alpha> / L\<^sub>y\<close> with \<open>\<alpha> = 0.99\<close> in \<open>(0, 1)\<close>.
\<close>

theorem gradg_moreau_yosida:
  "gradg m Xt = (Xt - chambolle_prox_TV m Xt (theta * lambd m) 25) /\<^sub>R lambd m
   \<and> proxg m Xt = chambolle_prox_TV m Xt (theta * (lambd_frac / L_y m)) 25
   \<and> lambd m = lambd_frac / L_y m
   \<and> lambd_frac = 0.99 \<and> 0 < lambd_frac \<and> lambd_frac < 1"
proof -
  have l: "lambd m = lambd_frac / L_y m"
    by (simp add: lambd_def lambda_prox_def)
  have "proxg m Xt = chambolle_prox_TV m Xt (theta * (lambd_frac / L_y m)) 25"
    unfolding proxg_def l ..
  then show ?thesis
    using l by (simp add: gradg_def proxg_def lambd_frac_def)
qed



section \<open>The SK-ROCK kernel: the noise term\<close>

lemma SKROCK_kernel_fold:
  assumes "0 < s" and "0 \<le> dt_perc * ell_s s eta / Lp"
  shows "\<exists>w'. SKROCK_kernel Xt Lp s eta dt_perc gradU w =
           Inr (fst (fst (fold (SKROCK_stage (omega_0 s eta) (omega_1 s eta)
                            (dt_perc * ell_s s eta / Lp) gradU) [2..<s + 1]
                  ((K_1 gradU s eta (dt_perc * ell_s s eta / Lp) Xt
                      (sqrt (2 * (dt_perc * ell_s s eta / Lp)) *\<^sub>R randn w (drawn w)), Xt),
                   wx))), w')
         \<and> drawn w' = Suc (drawn w) \<and> randn w' = randn w"
proof -
  obtain n where n: "s = Suc n" using assms(1) by (cases s) auto
  define dl where "dl = dt_perc * ell_s s eta / Lp"
  define Q where "Q = sqrt (2 * dl) *\<^sub>R randn w (drawn w)"
  have "fold (SKROCK_stage (omega_0 s eta) (omega_1 s eta) dl gradU) [2..<s + 1]
          ((K_1 gradU s eta dl Xt Q, Xt), wx)
        = ((K_stage gradU s eta dl Xt Q s, K_stage gradU s eta dl Xt Q n),
                 wx\<lparr>grad_evals := grad_evals wx + n\<rparr>)"
    using SKROCK_stages_K [of s eta dl gradU n Xt Q wx] by (simp add: n)
  then have "fst (fst (fold (SKROCK_stage (omega_0 s eta) (omega_1 s eta) dl gradU) [2..<s + 1]
          ((K_1 gradU s eta dl Xt Q, Xt), wx))) = K_stage gradU s eta dl Xt Q s"
    by simp
  then show ?thesis
    unfolding dl_def [symmetric] Q_def [symmetric]
    using SKROCK_kernel_returns [OF assms, of Xt gradU w]
    by (simp add: dl_def Q_def del: K_stage.simps)
qed

text \<open>
  Claim C9. A transition of the SK-ROCK kernel that returns makes exactly one draw \<open>Z\<close>
  of the generator and forms \<open>Q = sqrt(2 \<delta>) Z\<close>. The first stage is
  \<open>K\<^sub>1 = X - \<mu>\<^sub>1 \<delta> gradU(X + \<nu>\<^sub>1 Q) + \<kappa>\<^sub>1 Q\<close> with \<open>\<mu>\<^sub>1 = \<omega>\<^sub>1 / \<omega>\<^sub>0\<close>, \<open>\<nu>\<^sub>1 = s \<omega>\<^sub>1 / 2\<close>,
  \<open>\<kappa>\<^sub>1 = s \<omega>\<^sub>1 / \<omega>\<^sub>0\<close>; the later stages are the loop body applied to \<open>(K\<^sub>1, X)\<close>, which
  reads neither \<open>Q\<close> nor the generator (the result is the same from any world \<open>wx\<close>).
\<close>

theorem SKROCK_kernel_single_draw:
  assumes "0 < s" and "0 \<le> dt_perc * ell_s s eta / Lp"
  shows "\<exists>w'. SKROCK_kernel Xt Lp s eta dt_perc gradU w =
           Inr (fst (fst (fold (SKROCK_stage (omega_0 s eta) (omega_1 s eta)
                            (dt_perc * ell_s s eta / Lp) gradU) [2..<s + 1]
                  ((Xt - ((omega_1 s eta / omega_0 s eta) * (dt_perc * ell_s s eta / Lp)) *\<^sub>R
                          gradU (Xt + (real s * omega_1 s eta / 2) *\<^sub>R
                            (sqrt (2 * (dt_perc * ell_s s eta / Lp)) *\<^sub>R randn w (drawn w)))
                       + (real s * omega_1 s eta / omega_0 s eta) *\<^sub>R
                            (sqrt (2 * (dt_perc * ell_s s eta / Lp)) *\<^sub>R randn w (drawn w)), Xt),
                   wx))), w')
         \<and> drawn w' = Suc (drawn w) \<and> randn w' = randn w"
  using SKROCK_kernel_fold [OF assms, of Xt gradU w wx] by (simp only: K_1_def)

theorem SKROCK_kernel_single_draw_witness:
  "(0::nat) < 10 \<and> 0 \<le> 99 / 100 * ell_s 10 (1 / 20) / L two_pixel
   \<and> (\<exists>w'. SKROCK_kernel (Complex 1 0) (L two_pixel) 10 (1 / 20) (99 / 100)
              (grad_f_g two_pixel) quiet_world =
           Inr (fst (fst (fold (SKROCK_stage (omega_0 10 (1 / 20)) (omega_1 10 (1 / 20))
                            (99 / 100 * ell_s 10 (1 / 20) / L two_pixel) (grad_f_g two_pixel))
                  [2..<10 + 1]
                  ((Complex 1 0 - ((omega_1 10 (1 / 20) / omega_0 10 (1 / 20))
                          * (99 / 100 * ell_s 10 (1 / 20) / L two_pixel)) *\<^sub>R
                          grad_f_g two_pixel (Complex 1 0 + (real 10 * omega_1 10 (1 / 20) / 2) *\<^sub>R
                            (sqrt (2 * (99 / 100 * ell_s 10 (1 / 20) / L two_pixel)) *\<^sub>R
                               randn quiet_world (drawn quiet_world)))
                       + (real 10 * omega_1 10 (1 / 20) / omega_0 10 (1 / 20)) *\<^sub>R
                            (sqrt (2 * (99 / 100 * ell_s 10 (1 / 20) / L two_pixel)) *\<^sub>R
                               randn quiet_world (drawn quiet_world)), Complex 1 0),
                   quiet_world))), w')
         \<and> drawn w' = Suc (drawn quiet_world) \<and> randn w' = randn quiet_world)"
proof -
  have h: "(0::nat) < 10" "0 \<le> 99 / 100 * ell_s 10 (1 / 20) / L two_pixel"
    by (simp_all add: two_pixel_consts ell_s_def power2_eq_square)
  from SKROCK_kernel_single_draw [OF h, of "Complex 1 0" "grad_f_g two_pixel" quiet_world quiet_world] h
  show ?thesis by blast
qed

section \<open>The sampling loop\<close>

lemma iteration_early:
  assumes "kern (X s) (rng s) = Inr (Xn, wn)" and "i < burnin"
  shows "iteration tk kern lp vc burnin thin i s = Inr (s\<lparr>X := Xn, rng := wn\<rparr>)"
  using assms by (simp add: iteration_def)

lemma iteration_seed:
  assumes "kern (X s) (rng s) = Inr (Xn, wn)"
  shows "\<exists>r. iteration tk kern lp vc burnin thin burnin s = Inr r
           \<and> X r = Xn \<and> rng r = wn
           \<and> post_meanvar r = Some (welford_new tk Xn)
           \<and> absfouriercoeff r = Some (welford_new tk (fft2_abs tk Xn))
           \<and> (vc \<longrightarrow> var_C r = Some (welford_new tk (fft2_real tk Xn)))
           \<and> (\<not> vc \<longrightarrow> var_C r = var_C s)
           \<and> count r = Some 0
           \<and> nrmse_values r = nrmse_values s \<and> psnr_values r = psnr_values s
           \<and> ssim_values r = ssim_values s \<and> log_pi_trace r = log_pi_trace s
           \<and> MC_X r = MC_X s"
  using assms by (simp add: iteration_def Let_def)

lemma iteration_collect:
  assumes "kern (X s) (rng s) = Inr (Xn, wn)" and "burnin < i"
    and "post_meanvar s = Some pm" and "absfouriercoeff s = Some af" and "count s = Some c"
    and "vc \<longrightarrow> var_C s \<noteq> None"
  shows "\<exists>r. iteration tk kern lp vc burnin thin i s = Inr r
           \<and> X r = Xn \<and> rng r = wn
           \<and> post_meanvar r = Some (welford_update tk pm Xn)
           \<and> absfouriercoeff r = Some (welford_update tk af (fft2_abs tk Xn))
           \<and> (vc \<longrightarrow> var_C r \<noteq> None)
           \<and> count r = Some (if c = thin - 1 then 0 else c + 1)
           \<and> nrmse_values r = nrmse_values s @ [NRMSE tk (x tk) (get_mean tk (welford_update tk pm Xn))]
           \<and> psnr_values r = psnr_values s @ [PSNR tk (x tk) (get_mean tk (welford_update tk pm Xn))]
           \<and> ssim_values r = ssim_values s @ [SSIM tk (x tk) (get_mean tk (welford_update tk pm Xn))]
           \<and> log_pi_trace r = log_pi_trace s @ [lp Xn]
           \<and> MC_X r = (if c = thin - 1 then MC_X s @ [Xn] else MC_X s)"
proof (cases vc)
  case True
  then obtain v where "var_C s = Some v" using assms(6) by auto
  then show ?thesis
    using assms(1-5) True by (simp add: iteration_def collect_def Let_def)
next
  case False
  then show ?thesis
    using assms(1-5) by (simp add: iteration_def collect_def Let_def)
qed


lemma loop_before_burnin:
  assumes K: "\<And>Xv wv. kern Xv wv = Inr (kf Xv wv)" and "n \<le> burnin"
  shows "\<exists>r. sampling_loop (iteration tk kern lp vc burnin thin) n (initial_chain X0 w) = Inr r
           \<and> post_meanvar r = None \<and> absfouriercoeff r = None \<and> var_C r = None
           \<and> count r = None \<and> nrmse_values r = [] \<and> psnr_values r = []
           \<and> ssim_values r = [] \<and> log_pi_trace r = [] \<and> MC_X r = []"
  using assms(2)
proof (induction n)
  case 0
  show ?case by (simp add: initial_chain_def)
next
  case (Suc n)
  then obtain r where r: "sampling_loop (iteration tk kern lp vc burnin thin) n (initial_chain X0 w) = Inr r"
     "post_meanvar r = None" "absfouriercoeff r = None" "var_C r = None"
     "count r = None" "nrmse_values r = []" "psnr_values r = []"
     "ssim_values r = []" "log_pi_trace r = []" "MC_X r = []"
    by auto
  obtain Xn wn where k: "kern (X r) (rng r) = Inr (Xn, wn)"
    using K [of "X r" "rng r"] by (cases "kf (X r) (rng r)") simp
  have "n < burnin" using Suc.prems by simp
  from iteration_early [where kern = kern and s = r and tk = tk and lp = lp and vc = vc
      and thin = thin, OF k this]
  show ?case using r by simp
qed

lemma loop_collecting:
  assumes K: "\<And>Xv wv. kern Xv wv = Inr (kf Xv wv)" and "burnin < n"
  shows "\<exists>r pm af c. sampling_loop (iteration tk kern lp vc burnin thin) n (initial_chain X0 w) = Inr r
           \<and> post_meanvar r = Some pm \<and> absfouriercoeff r = Some af \<and> count r = Some c
           \<and> (vc \<longrightarrow> var_C r \<noteq> None)
           \<and> length (nrmse_values r) = n - burnin - 1
           \<and> length (psnr_values r) = n - burnin - 1
           \<and> length (ssim_values r) = n - burnin - 1
           \<and> length (log_pi_trace r) = n - burnin - 1"
  using assms(2)
proof (induction n)
  case 0
  then show ?case by simp
next
  case (Suc n)
  show ?case
  proof (cases "n = burnin")
    case True
    obtain r where r: "sampling_loop (iteration tk kern lp vc burnin thin) n (initial_chain X0 w) = Inr r"
      "nrmse_values r = []" "psnr_values r = []" "ssim_values r = []" "log_pi_trace r = []"
      using loop_before_burnin [where kern = kern and kf = kf and n = n and burnin = burnin, OF K]
        True by blast
    obtain Xn wn where k: "kern (X r) (rng r) = Inr (Xn, wn)"
      using K [of "X r" "rng r"] by (cases "kf (X r) (rng r)") simp
    from iteration_seed [where kern = kern and s = r and tk = tk and lp = lp and vc = vc
        and burnin = burnin and thin = thin, OF k]
    obtain r' where "iteration tk kern lp vc burnin thin burnin r = Inr r'"
      "post_meanvar r' = Some (welford_new tk Xn)"
      "absfouriercoeff r' = Some (welford_new tk (fft2_abs tk Xn))"
      "vc \<longrightarrow> var_C r' = Some (welford_new tk (fft2_real tk Xn))"
      "count r' = Some 0"
      "nrmse_values r' = nrmse_values r" "psnr_values r' = psnr_values r"
      "ssim_values r' = ssim_values r" "log_pi_trace r' = log_pi_trace r"
      by blast
    then show ?thesis using r True by simp
  next
    case False
    then have gt: "burnin < n" using Suc.prems by simp
    from Suc.IH [OF gt] obtain r pm af c where
      r: "sampling_loop (iteration tk kern lp vc burnin thin) n (initial_chain X0 w) = Inr r"
      and s: "post_meanvar r = Some pm" "absfouriercoeff r = Some af" "count r = Some c"
        "vc \<longrightarrow> var_C r \<noteq> None"
      and l: "length (nrmse_values r) = n - burnin - 1" "length (psnr_values r) = n - burnin - 1"
        "length (ssim_values r) = n - burnin - 1" "length (log_pi_trace r) = n - burnin - 1"
      by blast
    obtain Xn wn where k: "kern (X r) (rng r) = Inr (Xn, wn)"
      using K [of "X r" "rng r"] by (cases "kf (X r) (rng r)") simp
    from iteration_collect [where kern = kern and s = r and vc = vc and tk = tk and lp = lp
        and thin = thin, OF k gt s]
    obtain r' where r': "iteration tk kern lp vc burnin thin n r = Inr r'"
      "post_meanvar r' = Some (welford_update tk pm Xn)"
      "absfouriercoeff r' = Some (welford_update tk af (fft2_abs tk Xn))"
      "vc \<longrightarrow> var_C r' \<noteq> None"
      "count r' = Some (if c = thin - 1 then 0 else c + 1)"
      "length (nrmse_values r') = Suc (length (nrmse_values r))"
      "length (psnr_values r') = Suc (length (psnr_values r))"
      "length (ssim_values r') = Suc (length (ssim_values r))"
      "length (log_pi_trace r') = Suc (length (log_pi_trace r))"
      by force
    have "Suc (n - burnin - 1) = Suc n - burnin - 1" using gt by simp
    then show ?thesis using r r' l by simp
  qed
qed

lemma state_after_Inr:
  "sampling_loop body n s = Inr r \<Longrightarrow> state_after body s n = X r"
  by (simp add: state_after_def)




lemma loop_seeded:
  assumes K: "\<And>Xv wv. kern Xv wv = Inr (kf Xv wv)"
    and B: "body = iteration tk kern lp vc burnin thin"
  shows "\<exists>r. sampling_loop body (Suc burnin) (initial_chain X0 w) = Inr r
           \<and> post_meanvar r = Some (welford_new tk (X r))
           \<and> absfouriercoeff r = Some (welford_new tk (fft2_abs tk (X r)))
           \<and> nrmse_values r = [] \<and> psnr_values r = [] \<and> ssim_values r = []
           \<and> log_pi_trace r = [] \<and> MC_X r = []"
proof -
  let ?s0 = "initial_chain X0 w :: ('a, 'b) chain"
  obtain r where r: "sampling_loop body burnin ?s0 = Inr r"
    "nrmse_values r = []" "psnr_values r = []" "ssim_values r = []" "log_pi_trace r = []"
    "MC_X r = []"
    using loop_before_burnin [where kern = kern and kf = kf and n = burnin and burnin = burnin
        and tk = tk and lp = lp and vc = vc and thin = thin and ?X0.0 = X0 and w = w, OF K]
      B by auto
  obtain Xn wn where k: "kern (X r) (rng r) = Inr (Xn, wn)"
    using K [of "X r" "rng r"] by (cases "kf (X r) (rng r)") simp
  from iteration_seed [where kern = kern and s = r and tk = tk and lp = lp and vc = vc
      and burnin = burnin and thin = thin, OF k]
  obtain r' where "iteration tk kern lp vc burnin thin burnin r = Inr r'"
    "X r' = Xn"
    "post_meanvar r' = Some (welford_new tk Xn)"
    "absfouriercoeff r' = Some (welford_new tk (fft2_abs tk Xn))"
    "nrmse_values r' = nrmse_values r" "psnr_values r' = psnr_values r"
    "ssim_values r' = ssim_values r" "log_pi_trace r' = log_pi_trace r"
    "MC_X r' = MC_X r"
    by blast
  then show ?thesis using r B by simp
qed

lemma loop_contents:
  assumes K: "\<And>Xv wv. kern Xv wv = Inr (kf Xv wv)"
    and B: "body = iteration tk kern lp vc burnin thin"
    and n: "burnin < n"
  shows "\<exists>r. sampling_loop body n (initial_chain X0 w) = Inr r
           \<and> post_meanvar r =
               Some (foldl (welford_update tk)
                      (welford_new tk (state_after body (initial_chain X0 w) (Suc burnin)))
                      (map (\<lambda>i. state_after body (initial_chain X0 w) (Suc i)) [Suc burnin..<n]))
           \<and> absfouriercoeff r =
               Some (foldl (welford_update tk)
                      (welford_new tk (fft2_abs tk (state_after body (initial_chain X0 w) (Suc burnin))))
                      (map (\<lambda>i. fft2_abs tk (state_after body (initial_chain X0 w) (Suc i)))
                         [Suc burnin..<n]))
           \<and> log_pi_trace r =
               map (\<lambda>i. lp (state_after body (initial_chain X0 w) (Suc i))) [Suc burnin..<n]"
  using n
proof (induction n)
  case 0
  then show ?case by simp
next
  case (Suc n)
  let ?s0 = "initial_chain X0 w :: ('a, 'b) chain"
  show ?case
  proof (cases "n = burnin")
    case True
    from loop_seeded [OF K B, of X0 w]
    obtain r where r: "sampling_loop body (Suc burnin) ?s0 = Inr r"
      "post_meanvar r = Some (welford_new tk (X r))"
      "absfouriercoeff r = Some (welford_new tk (fft2_abs tk (X r)))" "log_pi_trace r = []"
      by blast
    have "state_after body ?s0 (Suc burnin) = X r"
      using state_after_Inr [OF r(1)] .
    then show ?thesis using r True by simp
  next
    case False
    then have gt: "burnin < n" using Suc.prems by simp
    define SA where "SA = (\<lambda>i. state_after body ?s0 (Suc i))"
    from Suc.IH [OF gt] obtain r where
      r: "sampling_loop body n ?s0 = Inr r"
      and p: "post_meanvar r = Some (foldl (welford_update tk) (welford_new tk (SA burnin))
                  (map SA [Suc burnin..<n]))"
      and a: "absfouriercoeff r = Some (foldl (welford_update tk)
                  (welford_new tk (fft2_abs tk (SA burnin)))
                  (map (\<lambda>i. fft2_abs tk (SA i)) [Suc burnin..<n]))"
      and l: "log_pi_trace r = map (\<lambda>i. lp (SA i)) [Suc burnin..<n]"
      unfolding SA_def by blast
    from loop_collecting [where kern = kern and kf = kf and n = n and burnin = burnin
          and tk = tk and lp = lp and vc = vc and thin = thin and ?X0.0 = X0 and w = w, OF K gt]
    obtain c where s: "count r = Some c" "vc \<longrightarrow> var_C r \<noteq> None"
      using r B by auto
    obtain Xn wn where k: "kern (X r) (rng r) = Inr (Xn, wn)"
      using K [of "X r" "rng r"] by (cases "kf (X r) (rng r)") simp
    from iteration_collect [where kern = kern and s = r and vc = vc and tk = tk and lp = lp
        and thin = thin, OF k gt p a s]
    obtain r' where r': "iteration tk kern lp vc burnin thin n r = Inr r'"
      "X r' = Xn"
      "post_meanvar r' = Some (welford_update tk (foldl (welford_update tk)
          (welford_new tk (SA burnin)) (map SA [Suc burnin..<n])) Xn)"
      "log_pi_trace r' = log_pi_trace r @ [lp Xn]"
      "absfouriercoeff r' = Some (welford_update tk (foldl (welford_update tk)
          (welford_new tk (fft2_abs tk (SA burnin)))
          (map (\<lambda>i. fft2_abs tk (SA i)) [Suc burnin..<n])) (fft2_abs tk Xn))"
      by blast
    have run: "sampling_loop body (Suc n) ?s0 = Inr r'"
      using r r'(1) B by simp
    have sa: "SA n = Xn"
      using state_after_Inr [OF run] r'(2) by (simp add: SA_def)
    have u: "[Suc burnin..<Suc n] = [Suc burnin..<n] @ [n]" using gt by simp
    have "post_meanvar r' = Some (foldl (welford_update tk) (welford_new tk (SA burnin))
                  (map SA [Suc burnin..<Suc n]))"
      unfolding u using r'(3) sa by simp
    moreover have "log_pi_trace r' = map (\<lambda>i. lp (SA i)) [Suc burnin..<Suc n]"
      unfolding u using r'(4) l sa by simp
    moreover have "absfouriercoeff r' = Some (foldl (welford_update tk)
                  (welford_new tk (fft2_abs tk (SA burnin)))
                  (map (\<lambda>i. fft2_abs tk (SA i)) [Suc burnin..<Suc n]))"
      unfolding u using r'(5) sa by simp
    ultimately show ?thesis
      using run unfolding SA_def by blast
  qed
qed

section \<open>The runs of the two notebooks\<close>







lemma MYULA_contents:
  assumes "0 \<le> dl" and "burnin < n"
  shows "\<exists>r. MYULA_run m tk dl n burnin thin w = Inr r
           \<and> X r = MYULA_state m tk dl burnin thin w n
           \<and> post_meanvar r =
               Some (foldl (welford_update tk)
                      (welford_new tk (MYULA_state m tk dl burnin thin w (Suc burnin)))
                      (map (\<lambda>i. MYULA_state m tk dl burnin thin w (Suc i)) [Suc burnin..<n]))
           \<and> absfouriercoeff r =
               Some (foldl (welford_update tk)
                      (welford_new tk (fft2_abs tk (MYULA_state m tk dl burnin thin w (Suc burnin))))
                      (map (\<lambda>i. fft2_abs tk (MYULA_state m tk dl burnin thin w (Suc i)))
                         [Suc burnin..<n]))
           \<and> log_pi_trace r =
               map (\<lambda>i. logPi m (MYULA_state m tk dl burnin thin w (Suc i))) [Suc burnin..<n]
           \<and> length (nrmse_values r) = n - burnin - 1
           \<and> length (psnr_values r) = n - burnin - 1
           \<and> length (ssim_values r) = n - burnin - 1"
proof -
  have K: "\<And>Xv wv. ULA_kernel m Xv dl wv
              = Inr (Xv - dl *\<^sub>R grad_f_g m Xv + sqrt (2 * dl) *\<^sub>R randn wv (drawn wv),
                     wv\<lparr>drawn := Suc (drawn wv), grad_evals := Suc (grad_evals wv)\<rparr>)"
    using assms(1) by (rule ULA_kernel_returns)
  from loop_contents [where kern = "\<lambda>Xv. ULA_kernel m Xv dl" and tk = tk and lp = "logPi m"
      and vc = False and burnin = burnin and thin = thin and n = n and ?X0.0 = "y m" and w = w,
      OF K refl assms(2)]
  obtain r where r: "MYULA_run m tk dl n burnin thin w = Inr r"
    and c: "post_meanvar r =
               Some (foldl (welford_update tk)
                      (welford_new tk (MYULA_state m tk dl burnin thin w (Suc burnin)))
                      (map (\<lambda>i. MYULA_state m tk dl burnin thin w (Suc i)) [Suc burnin..<n]))"
      "absfouriercoeff r =
               Some (foldl (welford_update tk)
                      (welford_new tk (fft2_abs tk (MYULA_state m tk dl burnin thin w (Suc burnin))))
                      (map (\<lambda>i. fft2_abs tk (MYULA_state m tk dl burnin thin w (Suc i)))
                         [Suc burnin..<n]))"
      "log_pi_trace r =
               map (\<lambda>i. logPi m (MYULA_state m tk dl burnin thin w (Suc i))) [Suc burnin..<n]"
    unfolding MYULA_run_def MYULA_state_def by blast
  have x: "X r = MYULA_state m tk dl burnin thin w n"
    using r unfolding MYULA_run_def MYULA_state_def by (simp add: state_after_def)
  from loop_collecting [where kern = "\<lambda>Xv. ULA_kernel m Xv dl" and tk = tk and lp = "logPi m"
      and vc = False and burnin = burnin and thin = thin and n = n and ?X0.0 = "y m" and w = w,
      OF K assms(2)]
  have "length (nrmse_values r) = n - burnin - 1 \<and> length (psnr_values r) = n - burnin - 1
      \<and> length (ssim_values r) = n - burnin - 1"
    using r unfolding MYULA_run_def by auto
  then show ?thesis using r c x by blast
qed

lemma SKROCK_contents:
  assumes "0 < s" and "0 \<le> dt_perc * ell_s s eta / L m" and "0 < maxit"
  shows "\<exists>r. SKROCK_run m tk s eta dt_perc maxit burnin thin w = Inr r
           \<and> X r = SKROCK_state m tk s eta dt_perc burnin thin w (maxit + burnin)
           \<and> post_meanvar r =
               Some (foldl (welford_update tk)
                      (welford_new tk (SKROCK_state m tk s eta dt_perc burnin thin w (Suc burnin)))
                      (map (\<lambda>i. SKROCK_state m tk s eta dt_perc burnin thin w (Suc i))
                         [Suc burnin..<maxit + burnin]))
           \<and> absfouriercoeff r =
               Some (foldl (welford_update tk)
                      (welford_new tk
                         (fft2_abs tk (SKROCK_state m tk s eta dt_perc burnin thin w (Suc burnin))))
                      (map (\<lambda>i. fft2_abs tk (SKROCK_state m tk s eta dt_perc burnin thin w (Suc i)))
                         [Suc burnin..<maxit + burnin]))
           \<and> log_pi_trace r =
               map (\<lambda>i. logPi m (SKROCK_state m tk s eta dt_perc burnin thin w (Suc i)))
                 [Suc burnin..<maxit + burnin]"
proof -
  have K: "\<And>Xv wv. SKROCK_kernel Xv (L m) s eta dt_perc (grad_f_g m) wv
              = Inr (K_stage (grad_f_g m) s eta (dt_perc * ell_s s eta / L m) Xv
                  (sqrt (2 * (dt_perc * ell_s s eta / L m)) *\<^sub>R randn wv (drawn wv)) s,
                wv\<lparr>drawn := Suc (drawn wv), grad_evals := grad_evals wv + s\<rparr>)"
    using assms(1,2) by (rule SKROCK_kernel_returns)
  have n: "burnin < maxit + burnin" using assms(3) by simp
  from loop_contents [where kern = "\<lambda>Xv. SKROCK_kernel Xv (L m) s eta dt_perc (grad_f_g m)"
      and tk = tk and lp = "logPi m" and vc = True and burnin = burnin and thin = thin
      and n = "maxit + burnin" and ?X0.0 = "y m" and w = w, OF K refl n]
  obtain r where r: "SKROCK_run m tk s eta dt_perc maxit burnin thin w = Inr r"
    and c: "post_meanvar r =
               Some (foldl (welford_update tk)
                      (welford_new tk (SKROCK_state m tk s eta dt_perc burnin thin w (Suc burnin)))
                      (map (\<lambda>i. SKROCK_state m tk s eta dt_perc burnin thin w (Suc i))
                         [Suc burnin..<maxit + burnin]))"
      "absfouriercoeff r =
               Some (foldl (welford_update tk)
                      (welford_new tk
                         (fft2_abs tk (SKROCK_state m tk s eta dt_perc burnin thin w (Suc burnin))))
                      (map (\<lambda>i. fft2_abs tk (SKROCK_state m tk s eta dt_perc burnin thin w (Suc i)))
                         [Suc burnin..<maxit + burnin]))"
      "log_pi_trace r =
               map (\<lambda>i. logPi m (SKROCK_state m tk s eta dt_perc burnin thin w (Suc i)))
                 [Suc burnin..<maxit + burnin]"
    unfolding SKROCK_run_def SKROCK_state_def by blast
  have x: "X r = SKROCK_state m tk s eta dt_perc burnin thin w (maxit + burnin)"
    using r unfolding SKROCK_run_def SKROCK_state_def by (simp add: state_after_def)
  show ?thesis using r c x by blast
qed

text \<open>
  Claim C5, amended. The sampling loops test no state for finiteness. Whenever the
  kernel returns (a step size \<open>\<delta> \<ge> 0\<close>; for SK-ROCK also \<open>s \<ge> 1\<close>), a run executes all its
  iterations whatever values the states take, over any type of arrays: each state
  produced after the burn-in index is given to the accumulator and its log-posterior is
  appended to the trace, and no iteration index is reported.
\<close>

theorem runs_test_no_state:
  assumes "0 \<le> dl" and "burnin < maxit" and "0 < s" and "0 \<le> dt_perc * ell_s s eta / L m"
  shows "(\<exists>r. MYULA_run m tk dl maxit burnin thin w = Inr r
            \<and> X r = MYULA_state m tk dl burnin thin w maxit
            \<and> post_meanvar r =
               Some (foldl (welford_update tk)
                      (welford_new tk (MYULA_state m tk dl burnin thin w (Suc burnin)))
                      (map (\<lambda>i. MYULA_state m tk dl burnin thin w (Suc i)) [Suc burnin..<maxit]))
            \<and> log_pi_trace r =
               map (\<lambda>i. logPi m (MYULA_state m tk dl burnin thin w (Suc i))) [Suc burnin..<maxit])
       \<and> (\<exists>r. SKROCK_run m tk s eta dt_perc maxit burnin thin w = Inr r
            \<and> X r = SKROCK_state m tk s eta dt_perc burnin thin w (maxit + burnin)
            \<and> post_meanvar r =
               Some (foldl (welford_update tk)
                      (welford_new tk (SKROCK_state m tk s eta dt_perc burnin thin w (Suc burnin)))
                      (map (\<lambda>i. SKROCK_state m tk s eta dt_perc burnin thin w (Suc i))
                         [Suc burnin..<maxit + burnin]))
            \<and> log_pi_trace r =
               map (\<lambda>i. logPi m (SKROCK_state m tk s eta dt_perc burnin thin w (Suc i)))
                 [Suc burnin..<maxit + burnin])"
proof -
  have "0 < maxit" using assms(2) by simp
  from SKROCK_contents [OF assms(3,4) this, of tk burnin thin w]
    MYULA_contents [OF assms(1,2), of m tk thin w]
  show ?thesis by blast
qed

theorem runs_test_no_state_witness:
  "0 \<le> delta two_pixel \<and> (50::nat) < 1000 \<and> (0::nat) < 10
   \<and> 0 \<le> 99 / 100 * ell_s 10 (1 / 20) / L two_pixel
   \<and> (\<exists>r. MYULA_run two_pixel trace_tools (delta two_pixel) 1000 50 20 quiet_world = Inr r
            \<and> X r = MYULA_state two_pixel trace_tools (delta two_pixel) 50 20 quiet_world 1000
            \<and> post_meanvar r =
               Some (foldl (welford_update trace_tools)
                      (welford_new trace_tools
                         (MYULA_state two_pixel trace_tools (delta two_pixel) 50 20 quiet_world
                            (Suc 50)))
                      (map (\<lambda>i. MYULA_state two_pixel trace_tools (delta two_pixel) 50 20
                                  quiet_world (Suc i)) [Suc 50..<1000]))
            \<and> log_pi_trace r =
               map (\<lambda>i. logPi two_pixel
                           (MYULA_state two_pixel trace_tools (delta two_pixel) 50 20 quiet_world
                              (Suc i))) [Suc 50..<1000])
   \<and> (\<exists>r. SKROCK_run two_pixel trace_tools 10 (1 / 20) (99 / 100) 1000 50 20 quiet_world = Inr r
            \<and> X r = SKROCK_state two_pixel trace_tools 10 (1 / 20) (99 / 100) 50 20 quiet_world
                      (1000 + 50)
            \<and> post_meanvar r =
               Some (foldl (welford_update trace_tools)
                      (welford_new trace_tools
                         (SKROCK_state two_pixel trace_tools 10 (1 / 20) (99 / 100) 50 20
                            quiet_world (Suc 50)))
                      (map (\<lambda>i. SKROCK_state two_pixel trace_tools 10 (1 / 20) (99 / 100) 50 20
                                  quiet_world (Suc i)) [Suc 50..<1000 + 50]))
            \<and> log_pi_trace r =
               map (\<lambda>i. logPi two_pixel
                           (SKROCK_state two_pixel trace_tools 10 (1 / 20) (99 / 100) 50 20
                              quiet_world (Suc i))) [Suc 50..<1000 + 50])"
proof -
  have h: "0 \<le> delta two_pixel" "(50::nat) < 1000" "(0::nat) < 10"
    "0 \<le> 99 / 100 * ell_s 10 (1 / 20) / L two_pixel"
    by (simp_all add: two_pixel_consts ell_s_def power2_eq_square)
  from runs_test_no_state [OF h, where tk = trace_tools and thin = 20 and w = quiet_world]
  show ?thesis using h by blast
qed

text \<open>
  A MYULA run of three iterations on an observation that is NaN: the state is NaN after
  the first transition, the run goes on, the accumulator receives NaN three times and
  the thinned trace twice.
\<close>

lemma nan_step: "ULA_kernel nan_pixel NaN 1 w
    = Inr (NaN, w\<lparr>drawn := Suc (drawn w), grad_evals := Suc (grad_evals w)\<rparr>)"
  by (simp add: ULA_kernel_returns minus_xfloat_def)

theorem runs_test_no_state_counterexample:
  "map_sum id MC_X (MYULA_run nan_pixel history_tools 1 3 0 1 still_world) = Inr [NaN, NaN]
   \<and> map_sum id post_meanvar (MYULA_run nan_pixel history_tools 1 3 0 1 still_world)
       = Inr (Some [NaN, NaN, NaN])"
proof -
  have y: "y nan_pixel = NaN" by (simp add: nan_pixel_def)
  show ?thesis
    by (simp add: MYULA_run_def eval_nat_numeral iteration_def collect_def Let_def nan_step
          initial_chain_def y history_tools_def)
qed




section \<open>Monitoring value and sampling gradient\<close>

lemma iteration_state:
  assumes "kern (X s) (rng s) = Inr (Xn, wn)"
    and "iteration tk kern lp vc burnin thin i s = Inr r"
  shows "X r = Xn \<and> rng r = wn"
  using assms
  by (auto simp: iteration_def collect_def Let_def
        split: if_splits option.splits prod.splits)

lemma loop_returns:
  assumes K: "\<And>Xv wv. kern Xv wv = Inr (kf Xv wv)"
  shows "\<exists>r. sampling_loop (iteration tk kern lp vc burnin thin) n (initial_chain X0 w) = Inr r"
proof (cases "n \<le> burnin")
  case True
  from loop_before_burnin [where kern = kern and kf = kf and n = n and burnin = burnin
      and tk = tk and lp = lp and vc = vc and thin = thin and ?X0.0 = X0 and w = w, OF K True]
  show ?thesis by blast
next
  case False
  then have "burnin < n" by simp
  from loop_collecting [where kern = kern and kf = kf and n = n and burnin = burnin
      and tk = tk and lp = lp and vc = vc and thin = thin and ?X0.0 = X0 and w = w, OF K this]
  show ?thesis by blast
qed

lemma loop_step:
  assumes K: "\<And>Xv wv. kern Xv wv = Inr (kf Xv wv)"
    and B: "body = iteration tk kern lp vc burnin thin"
  shows "\<exists>r r'. sampling_loop body n (initial_chain X0 w) = Inr r
           \<and> sampling_loop body (Suc n) (initial_chain X0 w) = Inr r'
           \<and> X r' = fst (kf (X r) (rng r)) \<and> rng r' = snd (kf (X r) (rng r))"
proof -
  let ?s0 = "initial_chain X0 w :: ('a, 'b) chain"
  obtain r where r: "sampling_loop body n ?s0 = Inr r"
    using loop_returns [where kern = kern and kf = kf and n = n and burnin = burnin
      and tk = tk and lp = lp and vc = vc and thin = thin and ?X0.0 = X0 and w = w, OF K] B
    by blast
  obtain r' where r': "sampling_loop body (Suc n) ?s0 = Inr r'"
    using loop_returns [where kern = kern and kf = kf and n = "Suc n" and burnin = burnin
      and tk = tk and lp = lp and vc = vc and thin = thin and ?X0.0 = X0 and w = w, OF K] B
    by blast
  have it: "iteration tk kern lp vc burnin thin n r = Inr r'"
    using r r' B by simp
  have k: "kern (X r) (rng r) = Inr (fst (kf (X r) (rng r)), snd (kf (X r) (rng r)))"
    using K [of "X r" "rng r"] by simp
  from iteration_state [OF k it] r r' show ?thesis by blast
qed

lemma loop_rng:
  assumes K: "\<And>Xv wv. kern Xv wv = Inr (kf Xv wv)"
    and B: "body = iteration tk kern lp vc burnin thin"
    and W: "\<And>Xv wv. snd (kf Xv wv)
              = wv\<lparr>drawn := Suc (drawn wv), grad_evals := grad_evals wv + g\<rparr>"
  shows "\<exists>r. sampling_loop body n (initial_chain X0 w) = Inr r
           \<and> rng r = w\<lparr>drawn := drawn w + n, grad_evals := grad_evals w + n * g\<rparr>"
proof (induction n)
  case 0
  show ?case by (simp add: initial_chain_def)
next
  case (Suc n)
  let ?s0 = "initial_chain X0 w :: ('a, 'b) chain"
  from loop_step [OF K B, of n X0 w]
  obtain r r' where r: "sampling_loop body n ?s0 = Inr r"
    and r': "sampling_loop body (Suc n) ?s0 = Inr r'"
    and s: "rng r' = snd (kf (X r) (rng r))"
    by blast
  from Suc.IH r have "rng r = w\<lparr>drawn := drawn w + n, grad_evals := grad_evals w + n * g\<rparr>"
    by simp
  then have "rng r' = w\<lparr>drawn := drawn w + Suc n, grad_evals := grad_evals w + Suc n * g\<rparr>"
    using s W [of "X r" "rng r"] by (simp add: add.assoc add.commute)
  then show ?case using r' by blast
qed

lemma grad_f_g_smoothed:
  "grad_f_g m = (\<lambda>v. gradf m v + (v - chambolle_prox_TV m v (theta * lambd m) 25) /\<^sub>R lambd m)"
  by (rule ext) (simp add: grad_f_g_def gradg_def proxg_def)

lemma grad_f_g_penalty_free:
  "grad_f_g (m\<lparr>Grad_Image := gi, tv := t\<rparr>) = grad_f_g m"
  by (rule ext)
     (simp add: grad_f_g_def gradf_def gradg_def proxg_def lambd_def lambda_prox_def L_y_def)

lemma L_penalty_free: "L (m\<lparr>Grad_Image := gi, tv := t\<rparr>) = L m"
  by (simp add: L_def L_g_def lambd_def lambda_prox_def L_y_def)

lemma logPi_prox_free: "logPi (m\<lparr>chambolle_prox_TV := p\<rparr>) z = logPi m z"
  by (simp add: logPi_def f_def g_fun_theta_def)

lemma logPi_exact: "logPi m z = - f m z - theta * tv m (Grad_Image m z)"
  by (simp add: logPi_def g_fun_theta_def)

lemma MYULA_state_0: "MYULA_state m tk dl burnin thin w 0 = y m"
  by (simp add: MYULA_state_def state_after_def initial_chain_def)

lemma SKROCK_state_0: "SKROCK_state m tk s eta dt_perc burnin thin w 0 = y m"
  by (simp add: SKROCK_state_def state_after_def initial_chain_def)

lemma MYULA_step:
  assumes "0 \<le> dl"
  shows "MYULA_state m tk dl burnin thin w (Suc n) =
           MYULA_state m tk dl burnin thin w n
             - dl *\<^sub>R grad_f_g m (MYULA_state m tk dl burnin thin w n)
             + sqrt (2 * dl) *\<^sub>R randn w (drawn w + n)"
proof -
  define kf where "kf = (\<lambda>Xv (wv :: 'a world). (Xv - dl *\<^sub>R grad_f_g m Xv + sqrt (2 * dl) *\<^sub>R randn wv (drawn wv),
                     wv\<lparr>drawn := Suc (drawn wv), grad_evals := Suc (grad_evals wv)\<rparr>))"
  define body where "body = iteration tk (\<lambda>Xv. ULA_kernel m Xv dl) (logPi m) False burnin thin"
  let ?s0 = "initial_chain (y m) w :: ('a, 'c) chain"
  have K: "\<And>Xv wv. ULA_kernel m Xv dl wv = Inr (kf Xv wv)"
    unfolding kf_def using assms by (rule ULA_kernel_returns)
  have W: "\<And>Xv wv. snd (kf Xv wv)
              = wv\<lparr>drawn := Suc (drawn wv), grad_evals := grad_evals wv + 1\<rparr>"
    by (simp add: kf_def)
  from loop_step [where kern = "\<lambda>Xv. ULA_kernel m Xv dl" and kf = kf, OF K body_def, of n "y m" w]
  obtain r r' where r: "sampling_loop body n ?s0 = Inr r"
    and r': "sampling_loop body (Suc n) ?s0 = Inr r'"
    and x: "X r' = fst (kf (X r) (rng r))"
    by blast
  from loop_rng [where kern = "\<lambda>Xv. ULA_kernel m Xv dl" and kf = kf and g = 1,
      OF K body_def W, of n "y m" w] r
  have g: "rng r = w\<lparr>drawn := drawn w + n, grad_evals := grad_evals w + n * 1\<rparr>"
    by simp
  have "MYULA_state m tk dl burnin thin w n = X r"
    using r by (simp add: MYULA_state_def state_after_def body_def)
  moreover have "MYULA_state m tk dl burnin thin w (Suc n) = X r'"
    using r' by (simp add: MYULA_state_def state_after_def body_def del: sampling_loop.simps)
  ultimately show ?thesis
    using x g by (simp add: kf_def)
qed

lemma SKROCK_step:
  assumes "0 < s" and "0 \<le> dt_perc * ell_s s eta / L m"
  shows "SKROCK_state m tk s eta dt_perc burnin thin w (Suc n) =
           K_stage (grad_f_g m) s eta (dt_perc * ell_s s eta / L m)
             (SKROCK_state m tk s eta dt_perc burnin thin w n)
             (sqrt (2 * (dt_perc * ell_s s eta / L m)) *\<^sub>R randn w (drawn w + n)) s"
proof -
  define kf where "kf = (\<lambda>Xv (wv :: 'a world). (K_stage (grad_f_g m) s eta (dt_perc * ell_s s eta / L m) Xv
                  (sqrt (2 * (dt_perc * ell_s s eta / L m)) *\<^sub>R randn wv (drawn wv)) s,
                wv\<lparr>drawn := Suc (drawn wv), grad_evals := grad_evals wv + s\<rparr>))"
  define body where "body = iteration tk
     (\<lambda>Xv. SKROCK_kernel Xv (L m) s eta dt_perc (grad_f_g m)) (logPi m) True burnin thin"
  let ?s0 = "initial_chain (y m) w :: ('a, 'c) chain"
  have K: "\<And>Xv wv. SKROCK_kernel Xv (L m) s eta dt_perc (grad_f_g m) wv = Inr (kf Xv wv)"
    unfolding kf_def using assms by (rule SKROCK_kernel_returns)
  have W: "\<And>Xv wv. snd (kf Xv wv)
              = wv\<lparr>drawn := Suc (drawn wv), grad_evals := grad_evals wv + s\<rparr>"
    by (simp add: kf_def)
  from loop_step [where kern = "\<lambda>Xv. SKROCK_kernel Xv (L m) s eta dt_perc (grad_f_g m)"
      and kf = kf, OF K body_def, of n "y m" w]
  obtain r r' where r: "sampling_loop body n ?s0 = Inr r"
    and r': "sampling_loop body (Suc n) ?s0 = Inr r'"
    and x: "X r' = fst (kf (X r) (rng r))"
    by blast
  from loop_rng [where kern = "\<lambda>Xv. SKROCK_kernel Xv (L m) s eta dt_perc (grad_f_g m)"
      and kf = kf and g = s, OF K body_def W, of n "y m" w] r
  have g: "rng r = w\<lparr>drawn := drawn w + n, grad_evals := grad_evals w + n * s\<rparr>"
    by simp
  have "SKROCK_state m tk s eta dt_perc burnin thin w n = X r"
    using r by (simp add: SKROCK_state_def state_after_def body_def)
  moreover have "SKROCK_state m tk s eta dt_perc burnin thin w (Suc n) = X r'"
    using r' by (simp add: SKROCK_state_def state_after_def body_def del: sampling_loop.simps)
  ultimately show ?thesis
    using x g by (simp add: kf_def del: K_stage.simps)
qed

lemma MYULA_state_penalty_free:
  assumes "0 \<le> dl"
  shows "MYULA_state (m\<lparr>Grad_Image := gi, tv := t\<rparr>) tk dl burnin thin w n
         = MYULA_state m tk dl burnin thin w n"
proof (induction n)
  case 0
  show ?case by (simp add: MYULA_state_0)
next
  case (Suc n)
  show ?case
    unfolding MYULA_step [OF assms] Suc.IH grad_f_g_penalty_free ..
qed

lemma SKROCK_state_penalty_free:
  assumes "0 < s" and "0 \<le> dt_perc * ell_s s eta / L m"
  shows "SKROCK_state (m\<lparr>Grad_Image := gi, tv := t\<rparr>) tk s eta dt_perc burnin thin w n
         = SKROCK_state m tk s eta dt_perc burnin thin w n"
proof (induction n)
  case 0
  show ?case by (simp add: SKROCK_state_0)
next
  case (Suc n)
  have a: "0 \<le> dt_perc * ell_s s eta / L (m\<lparr>Grad_Image := gi, tv := t\<rparr>)"
    using assms(2) by (simp only: L_penalty_free)
  show ?case
    unfolding SKROCK_step [OF assms] SKROCK_step [OF assms(1) a] Suc.IH
      grad_f_g_penalty_free L_penalty_free ..
qed

text \<open>
  Claim C6. In both notebooks the value appended to the log-posterior trace at an
  iteration is \<open>- f(X) - \<theta> tv(Grad_Image(X))\<close> at the state \<open>X\<close> of that iteration, with the
  exact total-variation penalty, a quantity in which the proximal solver does not occur.
  The state of the next iteration is produced from the smoothed gradient
  \<open>\<nabla>f(X) + (X - prox(X)) / \<lambda>\<close>: by the MYULA update in the one notebook, by the SK-ROCK
  stages in the other. The chain of either run is the same whatever functions evaluate
  the penalty.
\<close>

theorem monitoring_exact_sampling_smoothed:
  assumes "0 \<le> dl" and "burnin < maxit" and "0 < s" and "0 \<le> dt_perc * ell_s s eta / L m"
  shows "(\<exists>r. MYULA_run m tk dl maxit burnin thin w = Inr r
            \<and> log_pi_trace r =
                map (\<lambda>i. - f m (MYULA_state m tk dl burnin thin w (Suc i))
                          - theta * tv m (Grad_Image m (MYULA_state m tk dl burnin thin w (Suc i))))
                  [Suc burnin..<maxit])
       \<and> (\<exists>r. SKROCK_run m tk s eta dt_perc maxit burnin thin w = Inr r
            \<and> log_pi_trace r =
                map (\<lambda>i. - f m (SKROCK_state m tk s eta dt_perc burnin thin w (Suc i))
                          - theta * tv m (Grad_Image m
                              (SKROCK_state m tk s eta dt_perc burnin thin w (Suc i))))
                  [Suc burnin..<maxit + burnin])
       \<and> logPi m z = - f m z - theta * tv m (Grad_Image m z)
       \<and> logPi (m\<lparr>chambolle_prox_TV := p\<rparr>) z = logPi m z
       \<and> MYULA_state m tk dl burnin thin w (Suc n) =
           MYULA_state m tk dl burnin thin w n
             - dl *\<^sub>R (gradf m (MYULA_state m tk dl burnin thin w n)
                      + (MYULA_state m tk dl burnin thin w n
                          - chambolle_prox_TV m (MYULA_state m tk dl burnin thin w n)
                              (theta * lambd m) 25) /\<^sub>R lambd m)
             + sqrt (2 * dl) *\<^sub>R randn w (drawn w + n)
       \<and> SKROCK_state m tk s eta dt_perc burnin thin w (Suc n) =
           K_stage (\<lambda>v. gradf m v + (v - chambolle_prox_TV m v (theta * lambd m) 25) /\<^sub>R lambd m)
             s eta (dt_perc * ell_s s eta / L m)
             (SKROCK_state m tk s eta dt_perc burnin thin w n)
             (sqrt (2 * (dt_perc * ell_s s eta / L m)) *\<^sub>R randn w (drawn w + n)) s
       \<and> MYULA_state (m\<lparr>Grad_Image := gi, tv := t\<rparr>) tk dl burnin thin w n
           = MYULA_state m tk dl burnin thin w n
       \<and> SKROCK_state (m\<lparr>Grad_Image := gi, tv := t\<rparr>) tk s eta dt_perc burnin thin w n
           = SKROCK_state m tk s eta dt_perc burnin thin w n"
proof -
  have pos: "0 < maxit" using assms(2) by simp
  from MYULA_contents [OF assms(1,2), where m = m and tk = tk and thin = thin and w = w]
  have a: "\<exists>r. MYULA_run m tk dl maxit burnin thin w = Inr r
            \<and> log_pi_trace r =
                map (\<lambda>i. - f m (MYULA_state m tk dl burnin thin w (Suc i))
                          - theta * tv m (Grad_Image m (MYULA_state m tk dl burnin thin w (Suc i))))
                  [Suc burnin..<maxit]"
    unfolding logPi_exact by blast
  from SKROCK_contents [OF assms(3,4) pos, where tk = tk and burnin = burnin and thin = thin
      and w = w]
  have b: "\<exists>r. SKROCK_run m tk s eta dt_perc maxit burnin thin w = Inr r
            \<and> log_pi_trace r =
                map (\<lambda>i. - f m (SKROCK_state m tk s eta dt_perc burnin thin w (Suc i))
                          - theta * tv m (Grad_Image m
                              (SKROCK_state m tk s eta dt_perc burnin thin w (Suc i))))
                  [Suc burnin..<maxit + burnin]"
    unfolding logPi_exact by blast
  have c: "MYULA_state m tk dl burnin thin w (Suc n) =
           MYULA_state m tk dl burnin thin w n
             - dl *\<^sub>R (gradf m (MYULA_state m tk dl burnin thin w n)
                      + (MYULA_state m tk dl burnin thin w n
                          - chambolle_prox_TV m (MYULA_state m tk dl burnin thin w n)
                              (theta * lambd m) 25) /\<^sub>R lambd m)
             + sqrt (2 * dl) *\<^sub>R randn w (drawn w + n)"
    using MYULA_step [OF assms(1), where m = m and tk = tk and burnin = burnin and thin = thin
        and w = w and n = n]
    by (simp only: grad_f_g_smoothed)
  have d: "SKROCK_state m tk s eta dt_perc burnin thin w (Suc n) =
           K_stage (\<lambda>v. gradf m v + (v - chambolle_prox_TV m v (theta * lambd m) 25) /\<^sub>R lambd m)
             s eta (dt_perc * ell_s s eta / L m)
             (SKROCK_state m tk s eta dt_perc burnin thin w n)
             (sqrt (2 * (dt_perc * ell_s s eta / L m)) *\<^sub>R randn w (drawn w + n)) s"
    using SKROCK_step [OF assms(3,4), where tk = tk and burnin = burnin and thin = thin
        and w = w and n = n]
    by (simp only: grad_f_g_smoothed)
  show ?thesis
    using a b c d logPi_exact [where m = m and z = z]
      logPi_prox_free [where m = m and p = p and z = z]
      MYULA_state_penalty_free [OF assms(1), where m = m and gi = gi and t = t and tk = tk
        and burnin = burnin and thin = thin and w = w and n = n]
      SKROCK_state_penalty_free [OF assms(3,4), where gi = gi and t = t and tk = tk
        and burnin = burnin and thin = thin and w = w and n = n]
    by (intro conjI)
qed

theorem monitoring_exact_sampling_smoothed_witness:
  "0 \<le> delta two_pixel \<and> (50::nat) < 1000 \<and> (0::nat) < 10
   \<and> 0 \<le> 99 / 100 * ell_s 10 (1 / 20) / L two_pixel
   \<and> (\<exists>r. MYULA_run two_pixel trace_tools (delta two_pixel) 1000 50 20 quiet_world = Inr r
            \<and> log_pi_trace r =
                map (\<lambda>i. - f two_pixel
                              (MYULA_state two_pixel trace_tools (delta two_pixel) 50 20
                                 quiet_world (Suc i))
                          - theta * tv two_pixel (Grad_Image two_pixel
                              (MYULA_state two_pixel trace_tools (delta two_pixel) 50 20
                                 quiet_world (Suc i))))
                  [Suc 50..<1000])
   \<and> (\<exists>r. SKROCK_run two_pixel trace_tools 10 (1 / 20) (99 / 100) 1000 50 20 quiet_world = Inr r
            \<and> log_pi_trace r =
                map (\<lambda>i. - f two_pixel
                              (SKROCK_state two_pixel trace_tools 10 (1 / 20) (99 / 100) 50 20
                                 quiet_world (Suc i))
                          - theta * tv two_pixel (Grad_Image two_pixel
                              (SKROCK_state two_pixel trace_tools 10 (1 / 20) (99 / 100) 50 20
                                 quiet_world (Suc i))))
                  [Suc 50..<1000 + 50])
   \<and> logPi two_pixel (Complex 1 0)
       = - f two_pixel (Complex 1 0) - theta * tv two_pixel (Grad_Image two_pixel (Complex 1 0))
   \<and> logPi (two_pixel\<lparr>chambolle_prox_TV := chambolle_prox_TV two_pixel\<rparr>) (Complex 1 0)
       = logPi two_pixel (Complex 1 0)
   \<and> MYULA_state two_pixel trace_tools (delta two_pixel) 50 20 quiet_world (Suc 3) =
           MYULA_state two_pixel trace_tools (delta two_pixel) 50 20 quiet_world 3
             - delta two_pixel *\<^sub>R
                 (gradf two_pixel
                    (MYULA_state two_pixel trace_tools (delta two_pixel) 50 20 quiet_world 3)
                  + (MYULA_state two_pixel trace_tools (delta two_pixel) 50 20 quiet_world 3
                      - chambolle_prox_TV two_pixel
                          (MYULA_state two_pixel trace_tools (delta two_pixel) 50 20 quiet_world 3)
                          (theta * lambd two_pixel) 25) /\<^sub>R lambd two_pixel)
             + sqrt (2 * delta two_pixel) *\<^sub>R randn quiet_world (drawn quiet_world + 3)
   \<and> SKROCK_state two_pixel trace_tools 10 (1 / 20) (99 / 100) 50 20 quiet_world (Suc 3) =
           K_stage (\<lambda>v. gradf two_pixel v
                       + (v - chambolle_prox_TV two_pixel v (theta * lambd two_pixel) 25)
                           /\<^sub>R lambd two_pixel)
             10 (1 / 20) (99 / 100 * ell_s 10 (1 / 20) / L two_pixel)
             (SKROCK_state two_pixel trace_tools 10 (1 / 20) (99 / 100) 50 20 quiet_world 3)
             (sqrt (2 * (99 / 100 * ell_s 10 (1 / 20) / L two_pixel)) *\<^sub>R
                randn quiet_world (drawn quiet_world + 3)) 10
   \<and> MYULA_state (two_pixel\<lparr>Grad_Image := Grad_Image two_pixel, tv := tv two_pixel\<rparr>)
         trace_tools (delta two_pixel) 50 20 quiet_world 3
       = MYULA_state two_pixel trace_tools (delta two_pixel) 50 20 quiet_world 3
   \<and> SKROCK_state (two_pixel\<lparr>Grad_Image := Grad_Image two_pixel, tv := tv two_pixel\<rparr>)
         trace_tools 10 (1 / 20) (99 / 100) 50 20 quiet_world 3
       = SKROCK_state two_pixel trace_tools 10 (1 / 20) (99 / 100) 50 20 quiet_world 3"
proof -
  have h: "0 \<le> delta two_pixel" "(50::nat) < 1000" "(0::nat) < 10"
    "0 \<le> 99 / 100 * ell_s 10 (1 / 20) / L two_pixel"
    by (simp_all add: two_pixel_consts ell_s_def power2_eq_square)
  from monitoring_exact_sampling_smoothed [OF h, where tk = trace_tools and thin = 20
      and w = quiet_world and z = "Complex 1 0" and p = "chambolle_prox_TV two_pixel"
      and n = 3 and gi = "Grad_Image two_pixel" and t = "tv two_pixel"]
  show ?thesis using h by (intro conjI) blast+
qed

end
